theory Spec2Isabelle
  imports Main
begin

section \<open>Data model\<close>

text \<open>
  The application is a single React component. Its state is the tuple of \<open>useState\<close>
  cells declared at the top of \<open>App\<close>; every handler and every subscription callback reads
  the cells of the render it was created in (its closure) and issues a sequence of setter
  calls and of calls to the external services (Firestore, the generation endpoint). A
  handler is therefore modelled as a function from the closure state (and from the outcomes
  of the external calls it awaits) to the ordered list of effects it issues; \<open>run\<close> folds the
  setter calls of such a list into the state. One invocation is followed from its start to
  its end; other events arriving while it is suspended at an \<open>await\<close> are not interleaved.

  JavaScript strings are \<open>string\<close> (8-bit characters). A cell that holds a string or
  \<open>null\<close> is a \<open>string option\<close>; \<open>truthy\<close> is JavaScript's truthiness
  on such a cell (\<open>null\<close>, \<open>undefined\<close> and the empty string are falsy).
  The cells \<open>db\<close> and \<open>auth\<close> hold an SDK handle or \<open>null\<close>; only their
  being non-null is ever read, which is the Boolean kept here.
\<close>

record message =
  sender :: string
  msg_text :: string
  timestamp :: string

record chat_session =
  session_id :: string
  title :: string
  session_messages :: "message list"
  createdAt :: string
  updatedAt :: string

record content =
  role :: string
  parts :: "string list"

record app_state =
  messages :: "message list"
  input :: string
  loading :: bool
  db :: bool
  auth :: bool
  userId :: "string option"
  chatSessions :: "chat_session list"
  currentSessionId :: "string option"
  isReady :: bool
  isDemoMode :: bool
  perceptionDocContent :: string
  luaExamplesContent :: string

definition truthy :: "string option \<Rightarrow> bool" where
  "truthy v = (case v of None \<Rightarrow> False | Some x \<Rightarrow> x \<noteq> [])"

text \<open>The initial values of the \<open>useState\<close> cells.\<close>

definition initial_state :: app_state where
  "initial_state =
     \<lparr>messages = [], input = [], loading = False, db = False, auth = False, userId = None,
      chatSessions = [], currentSessionId = None, isReady = False, isDemoMode = False,
      perceptionDocContent = [], luaExamplesContent = []\<rparr>"

subsection \<open>Effects\<close>

text \<open>
  Setter calls, calls to the external services and console output, in the order the code
  issues them. \<open>AppendMessage m\<close> is the functional update
  \<open>setMessages(prev => [...prev, m])\<close>. \<open>UpdateDoc sid ms\<close> is
  \<open>updateDoc\<close> on the document of session \<open>sid\<close> with \<open>messages: ms\<close>;
  \<open>AddDoc t\<close> is \<open>addDoc\<close> of a session titled \<open>t\<close> with an empty message list;
  \<open>Fetch cs\<close> is the POST of \<open>{contents: cs}\<close> to the generation endpoint;
  \<open>SignIn tok\<close> is \<open>signInWithCustomToken\<close> with the token \<open>tok\<close>, or
  \<open>signInAnonymously\<close> when there is none. The three \<open>Subscribe\<close> effects are the
  registrations of the listeners (\<open>onAuthStateChanged\<close>, \<open>onSnapshot\<close> on the
  session collection and on one session document). Console output is kept by its fixed
  leading text.
\<close>

datatype effect =
    SetMessages "message list"
  | AppendMessage message
  | SetInput string
  | SetLoading bool
  | SetDb bool
  | SetAuth bool
  | SetUserId string
  | SetChatSessions "chat_session list"
  | SetCurrentSessionId string
  | SetIsReady bool
  | SetIsDemoMode bool
  | AddDoc string
  | UpdateDoc string "message list"
  | Fetch "content list"
  | SignIn "string option"
  | SubscribeAuth
  | SubscribeSessions
  | SubscribeSessionDoc string
  | ConsoleWarn string
  | ConsoleError string

fun apply_effect :: "app_state \<Rightarrow> effect \<Rightarrow> app_state" where
  "apply_effect s (SetMessages ms) = s\<lparr>messages := ms\<rparr>"
| "apply_effect s (AppendMessage m) = s\<lparr>messages := messages s @ [m]\<rparr>"
| "apply_effect s (SetInput i) = s\<lparr>input := i\<rparr>"
| "apply_effect s (SetLoading b) = s\<lparr>loading := b\<rparr>"
| "apply_effect s (SetDb b) = s\<lparr>db := b\<rparr>"
| "apply_effect s (SetAuth b) = s\<lparr>auth := b\<rparr>"
| "apply_effect s (SetUserId u) = s\<lparr>userId := Some u\<rparr>"
| "apply_effect s (SetChatSessions cs) = s\<lparr>chatSessions := cs\<rparr>"
| "apply_effect s (SetCurrentSessionId i) = s\<lparr>currentSessionId := Some i\<rparr>"
| "apply_effect s (SetIsReady b) = s\<lparr>isReady := b\<rparr>"
| "apply_effect s (SetIsDemoMode b) = s\<lparr>isDemoMode := b\<rparr>"
| "apply_effect s _ = s"

definition run :: "effect list \<Rightarrow> app_state \<Rightarrow> app_state" where
  "run es s = foldl apply_effect s es"

subsection \<open>Outcomes of the external calls of one turn\<close>

text \<open>
  \<open>updateDoc\<close> resolves or rejects. \<open>fetch\<close> rejects (network failure) or resolves
  to a response with a status; \<open>response.text()\<close> and \<open>response.json()\<close> resolve or
  reject (\<open>None\<close>). A parsed body is described by the fields the code reads:
  \<open>candidates\<close>, each candidate's \<open>content\<close>, its \<open>parts\<close>, each part's
  \<open>text\<close>, any of which may be missing (\<open>None\<close>), and \<open>error.message\<close>.
  Fields that are present are assumed to have their documented types. A body that parses
  to \<open>null\<close> makes the first property read throw, like a rejected \<open>json()\<close>, and is
  \<open>None\<close> too.
\<close>

datatype write_outcome = WriteOk | WriteThrows

type_synonym part = "string option"
type_synonym candidate = "part list option option"

record gen_result =
  candidates :: "candidate list option"
  api_error :: "string option"

record response =
  status :: nat
  body_text :: "string option"
  body_json :: "gen_result option"

datatype fetch_outcome = FetchRejects | FetchResolves response

record turn_env =
  now_user :: string
  now_ai :: string
  user_write :: write_outcome
  generation :: fetch_outcome
  ai_write :: write_outcome
  reread_text :: "string option"

definition ok :: "response \<Rightarrow> bool" where
  "ok r = (200 \<le> status r \<and> status r \<le> 299)"

section \<open>Sending a message (chatbot.js)\<close>

text \<open>
  \<open>String.prototype.trim\<close> removes white space and line terminators at both ends;
  \<open>isWhiteSpace\<close> holds of those among the 8-bit characters. The call
  \<open>e.preventDefault()\<close> at the head of the handler acts on the event only and has no
  counterpart here. The clock is read from the environment (\<open>now_user\<close> when the user
  message is built, \<open>now_ai\<close> when the AI message is).
\<close>

definition isWhiteSpace :: "char \<Rightarrow> bool" where
  "isWhiteSpace c = (c \<in> set [CHR 0x09, CHR 0x0A, CHR 0x0B, CHR 0x0C, CHR 0x0D, CHR 0x20, CHR 0xA0])"

definition trim :: "string \<Rightarrow> string" where
  "trim str = rev (dropWhile isWhiteSpace (rev (dropWhile isWhiteSpace str)))"

definition systemPrompt :: string where
  "systemPrompt = ''You are an AI chatbot specialized in Lua 5.4 and the Perception.cx API. You MUST strictly adhere to the provided Perception.cx API documentation and Lua 5.4 syntax, you can also make an external/custom lua library based on what the user wants. Only provide code examples and explanations relevant to these two contexts. Do NOT provide information or code outside of Lua 5.4 or the Perception.cx API. Your response should be a single, professional, and well-formatted message. Avoid conversational filler and get straight to the point. When providing code, use Lua syntax highlighting within markdown code blocks. For code examples, provide a clear, concise heading (e.g., \"## Generic Lua Watermark Example\") before the code block. Ensure the overall response is clean, easy to read, and follows a structure similar to the user's provided example image, with a brief introductory sentence followed by the code block and its heading. Use the provided Lua examples to learn and improve your responses, making them more accurate and relevant to the user's needs.''"

definition acknowledgement :: string where
  "acknowledgement = ''Understood. I will strictly adhere to Lua 5.4 and the Perception.cx API documentation and provided examples, providing only one professional response with proper formatting and no external library references but if a user wants to be able to make an external library like ffi/luajit bit HTTP and more you will make those for the user. I will ensure a concise introduction, clear code block headings, and proper Lua syntax highlighting.''"

definition toContent :: "message \<Rightarrow> content" where
  "toContent msg = \<lparr>role = (if sender msg = ''user'' then ''user'' else ''model''), parts = [msg_text msg]\<rparr>"

definition contents :: "app_state \<Rightarrow> message list \<Rightarrow> content list" where
  "contents s updatedMessages =
     [\<lparr>role = ''user'',
       parts = [systemPrompt @ ''\<newline>\<newline>Perception.cx API Documentation:\<newline>'' @ perceptionDocContent s
                @ ''\<newline>\<newline>Lua Code Examples for Learning:\<newline>'' @ luaExamplesContent s]\<rparr>,
      \<lparr>role = ''model'', parts = [acknowledgement]\<rparr>]
     @ map toContent updatedMessages"

text \<open>\<open>result.candidates?.[0]?.content?.parts?.[0]?.text\<close>\<close>

definition firstText :: "gen_result \<Rightarrow> string option" where
  "firstText r =
     (case candidates r of
        None \<Rightarrow> None
      | Some [] \<Rightarrow> None
      | Some (c # _) \<Rightarrow>
          (case c of
             None \<Rightarrow> None
           | Some None \<Rightarrow> None
           | Some (Some []) \<Rightarrow> None
           | Some (Some (p # _)) \<Rightarrow> p))"

definition withMessages :: "string \<Rightarrow> message list \<Rightarrow> string \<Rightarrow> chat_session list \<Rightarrow> chat_session list" where
  "withMessages sid ms now sessions =
     map (\<lambda>x. if session_id x = sid then x\<lparr>session_messages := ms, updatedAt := now\<rparr> else x) sessions"

text \<open>The block "Update state locally first for responsiveness".\<close>

definition saveUserMessage :: "turn_env \<Rightarrow> app_state \<Rightarrow> string \<Rightarrow> message list \<Rightarrow> effect list" where
  "saveUserMessage env s sid updatedMessages =
     (if isDemoMode s then [SetChatSessions (withMessages sid updatedMessages (now_user env) (chatSessions s))]
      else if db s \<and> truthy (userId s) then
        UpdateDoc sid updatedMessages
        # (case user_write env of
             WriteOk \<Rightarrow> []
           | WriteThrows \<Rightarrow> [ConsoleError ''Error saving user message:''])
      else [])"

text \<open>The block "Save AI response", inside the \<open>try\<close> of the generation call.\<close>

definition saveAiResponse :: "turn_env \<Rightarrow> app_state \<Rightarrow> string \<Rightarrow> message list \<Rightarrow> effect list" where
  "saveAiResponse env s sid finalMessages =
     (if isDemoMode s then [SetChatSessions (withMessages sid finalMessages (now_ai env) (chatSessions s))]
      else if db s \<and> truthy (userId s) then
        UpdateDoc sid finalMessages
        # (case ai_write env of
             WriteOk \<Rightarrow> []
           | WriteThrows \<Rightarrow> [ConsoleError ''Error with AI response:''])
      else [])"

definition appendAi :: "turn_env \<Rightarrow> app_state \<Rightarrow> string \<Rightarrow> message list \<Rightarrow> string \<Rightarrow> effect list" where
  "appendAi env s sid updatedMessages responseText =
     (let aiMessage = \<lparr>sender = ''ai'', msg_text = responseText, timestamp = now_ai env\<rparr>;
          finalMessages = updatedMessages @ [aiMessage]
      in SetMessages finalMessages # saveAiResponse env s sid finalMessages)"

text \<open>
  The computation of \<open>aiResponseText\<close> from the response, with the console output it
  makes on the way; \<open>None\<close> when reading the body throws.
\<close>

definition aiResponseText :: "response \<Rightarrow> (effect list \<times> string) option" where
  "aiResponseText r =
     (if ok r then
        (case body_json r of
           None \<Rightarrow> None
         | Some result \<Rightarrow>
             Some ([], (case firstText result of
                          None \<Rightarrow> ''Sorry, I couldn't get a response.''
                        | Some t \<Rightarrow> if t = [] then ''Sorry, I couldn't get a response.'' else t)))
      else
        (case body_text r of
           None \<Rightarrow> None
         | Some b \<Rightarrow>
             Some ([ConsoleError ''AI API Error:''],
                   ''There was an error connecting to the AI. Please check the console.'')))"

text \<open>The \<open>try\<close> block of the generation call, with its \<open>catch\<close>.\<close>

definition aiResponse :: "turn_env \<Rightarrow> app_state \<Rightarrow> string \<Rightarrow> message list \<Rightarrow> effect list" where
  "aiResponse env s sid updatedMessages =
     Fetch (contents s updatedMessages)
     # (case generation env of
          FetchRejects \<Rightarrow> [ConsoleError ''Error with AI response:'']
        | FetchResolves r \<Rightarrow>
            (case aiResponseText r of
               None \<Rightarrow> [ConsoleError ''Error with AI response:'']
             | Some (logged, t) \<Rightarrow> logged @ appendAi env s sid updatedMessages t))"

definition handleSendMessage :: "turn_env \<Rightarrow> app_state \<Rightarrow> effect list" where
  "handleSendMessage env s =
     (if trim (input s) = [] \<or> loading s \<or> \<not> truthy (currentSessionId s) then []
      else
        (let sid = the (currentSessionId s);
             userMessage = \<lparr>sender = ''user'', msg_text = trim (input s), timestamp = now_user env\<rparr>;
             updatedMessages = messages s @ [userMessage]
         in [SetMessages updatedMessages, SetInput [], SetLoading True]
            @ saveUserMessage env s sid updatedMessages
            @ aiResponse env s sid updatedMessages
            @ [SetLoading False]))"

section \<open>Sending a message (the Firestore-only revision, src/unnamed/part_000)\<close>

text \<open>
  This revision has no demo mode; its readiness cell is called \<open>isAuthReady\<close> and is
  held in \<open>isReady\<close> here. The documentation text is the value returned by
  \<open>simulateFetchPerceptionDocContent\<close>, a fixed literal of some two hundred lines; it is
  the parameter \<open>doc\<close>. The first persistence write is inside the \<open>try\<close>, so a throw
  there skips the generation call, and the \<open>catch\<close> appends an error message to the
  displayed list. The body posted to the endpoint also carries an empty
  \<open>generationConfig\<close>, which is left out. When \<open>response.json()\<close> has rejected, the
  handler reads the body again with \<open>response.text()\<close>; the outcome of that second read
  is \<open>reread_text\<close>.
\<close>

fun decimal :: "nat \<Rightarrow> string" where
  "decimal n = (if n < 10 then [char_of (48 + n)] else decimal (n div 10) @ [char_of (48 + n mod 10)])"

definition baseSystemPrompt :: string where
  "baseSystemPrompt = ''You are an AI chatbot specialized in Lua 5.4 programming language and the Perception.cx API.\<newline>            Your responses must strictly adhere to information available in Lua 5.4 documentation and the Perception.cx API.\<newline>            Do not provide information outside of these two specific topics.\<newline>            If you are asked a question that is outside your scope, please state politely that you cannot answer it as it is beyond your specialized knowledge.''"

definition fullContextForModel :: "string \<Rightarrow> string" where
  "fullContextForModel doc =
     baseSystemPrompt @ ''\<newline>\<newline>--- Start Perception.cx Documentation Context ---\<newline>'' @ doc
     @ ''\<newline>--- End Perception.cx Documentation Context ---''"

definition chatHistoryForModel :: "string \<Rightarrow> app_state \<Rightarrow> message \<Rightarrow> content list" where
  "chatHistoryForModel doc s userMessage =
     (if messages s = [] then
        [\<lparr>role = ''user'', parts = [fullContextForModel doc @ ''\<newline>\<newline>User Query: '' @ msg_text userMessage]\<rparr>]
      else map toContent (messages s @ [userMessage]))"

definition errorMessage :: "turn_env \<Rightarrow> message" where
  "errorMessage env =
     \<lparr>sender = ''ai'',
      msg_text = ''An unexpected error occurred while processing your request. Please check your console for details.'',
      timestamp = now_ai env\<rparr>"

definition catchTurn0 :: "turn_env \<Rightarrow> effect list" where
  "catchTurn0 env =
     [ConsoleError ''Error sending message to AI or updating Firestore:'', AppendMessage (errorMessage env)]"

definition appendAi0 :: "turn_env \<Rightarrow> string \<Rightarrow> message list \<Rightarrow> string \<Rightarrow> effect list" where
  "appendAi0 env sid updatedMessages responseText =
     (let aiMessage = \<lparr>sender = ''ai'', msg_text = responseText, timestamp = now_ai env\<rparr>;
          finalMessages = updatedMessages @ [aiMessage]
      in [SetMessages finalMessages, UpdateDoc sid finalMessages]
         @ (case ai_write env of WriteOk \<Rightarrow> [] | WriteThrows \<Rightarrow> catchTurn0 env))"

text \<open>
  The reading of a parsed body. A first part without \<open>text\<close> leaves the message text
  \<open>undefined\<close>, which is written as the empty string here.
\<close>

definition readResult0 :: "gen_result \<Rightarrow> effect list \<times> string" where
  "readResult0 result =
     (case candidates result of
        Some (Some (Some (p # _)) # _) \<Rightarrow> ([], (case p of Some t \<Rightarrow> t | None \<Rightarrow> []))
      | _ \<Rightarrow>
          (case api_error result of
             Some m \<Rightarrow> ([ConsoleError ''AI API Error:''], ''Error from AI: '' @ m)
           | None \<Rightarrow>
               ([ConsoleError ''AI API Response structure unexpected:''],
                ''Sorry, the AI returned an unexpected response format.'')))"

definition aiResponse0 :: "string \<Rightarrow> turn_env \<Rightarrow> app_state \<Rightarrow> string \<Rightarrow> message \<Rightarrow> effect list" where
  "aiResponse0 doc env s sid userMessage =
     Fetch (chatHistoryForModel doc s userMessage)
     # (case generation env of
          FetchRejects \<Rightarrow> catchTurn0 env
        | FetchResolves r \<Rightarrow>
            if \<not> ok r then
              (case body_text r of
                 None \<Rightarrow> catchTurn0 env
               | Some errorBody \<Rightarrow>
                   ConsoleError ''AI API Error: HTTP Status''
                   # appendAi0 env sid (messages s @ [userMessage])
                       (if status r = 401 then
                          ''Error: Unauthorized. Please ensure your Gemini API key is correctly configured.''
                        else ''Error from AI: HTTP Status '' @ decimal (status r) @ ''. Please try again later.''))
            else
              (case body_json r of
                 Some result \<Rightarrow>
                   fst (readResult0 result) @ appendAi0 env sid (messages s @ [userMessage]) (snd (readResult0 result))
               | None \<Rightarrow>
                   (case reread_text env of
                      None \<Rightarrow> catchTurn0 env
                    | Some rawText \<Rightarrow>
                        ConsoleError ''Error parsing AI API response JSON:''
                        # appendAi0 env sid (messages s @ [userMessage])
                            ''Sorry, I received an unreadable response from the AI. Please try again.'')))"

definition handleSendMessage0 :: "string \<Rightarrow> turn_env \<Rightarrow> app_state \<Rightarrow> effect list" where
  "handleSendMessage0 doc env s =
     (if trim (input s) = [] \<or> loading s \<or> \<not> db s \<or> \<not> truthy (userId s) \<or> \<not> truthy (currentSessionId s) then []
      else
        (let sid = the (currentSessionId s);
             userMessage = \<lparr>sender = ''user'', msg_text = trim (input s), timestamp = now_user env\<rparr>;
             updatedMessages = messages s @ [userMessage]
         in [SetMessages updatedMessages, SetInput [], SetLoading True]
            @ UpdateDoc sid updatedMessages
            # (case user_write env of
                 WriteThrows \<Rightarrow> catchTurn0 env
               | WriteOk \<Rightarrow> aiResponse0 doc env s sid userMessage)
            @ [SetLoading False]))"

section \<open>Sessions and the message list (chatbot.js)\<close>

text \<open>
  \<open>crypto.randomUUID()\<close>, the clock and the outcome of \<open>addDoc\<close> (the id of the new
  document, or \<open>None\<close> when it rejects) are given by the environment.
\<close>

record create_env =
  uuid :: string
  now_create :: string
  date_string :: string
  added :: "string option"

definition createNewChatSession :: "create_env \<Rightarrow> app_state \<Rightarrow> effect list" where
  "createNewChatSession env s =
     SetLoading True
     # (if isDemoMode s then
          [SetChatSessions
             (\<lparr>session_id = uuid env, title = ''New Chat (Demo)'', session_messages = [],
               createdAt = now_create env, updatedAt = now_create env\<rparr> # chatSessions s),
           SetCurrentSessionId (uuid env),
           SetMessages []]
        else if db s \<and> truthy (userId s) then
          AddDoc (''New Chat '' @ date_string env)
          # (case added env of
               Some newId \<Rightarrow> [SetCurrentSessionId newId, SetMessages []]
             | None \<Rightarrow> [ConsoleError ''Error creating new chat session:''])
        else [])
     @ [SetLoading False]"

text \<open>
  The effect "for managing sessions"; it runs when one of \<open>isReady\<close>, \<open>isDemoMode\<close>,
  \<open>db\<close>, \<open>userId\<close> has changed.
\<close>

definition sessionsEffect :: "create_env \<Rightarrow> app_state \<Rightarrow> effect list" where
  "sessionsEffect env s =
     (if \<not> isReady s then []
      else if isDemoMode s then (if chatSessions s = [] then createNewChatSession env s else [])
      else if db s \<and> truthy (userId s) then [SubscribeSessions]
      else [])"

text \<open>
  The listener registered by that effect. It keeps the closure \<open>c\<close> of the render in which
  the effect ran: \<open>currentSessionId\<close> is not among the dependencies of the effect, so a
  later change of it does not renew the listener. \<open>sessions\<close> is the list of documents of
  the snapshot, which is empty exactly when \<open>snapshot.empty\<close> holds.
\<close>

definition onSessionsSnapshot :: "create_env \<Rightarrow> app_state \<Rightarrow> chat_session list \<Rightarrow> effect list" where
  "onSessionsSnapshot env c sessions =
     SetChatSessions sessions
     # (case sessions of
          first # _ \<Rightarrow> if \<not> truthy (currentSessionId c) then [SetCurrentSessionId (session_id first)] else []
        | [] \<Rightarrow> createNewChatSession env c)"

text \<open>The snapshots delivered, one after the other, to one registered listener.\<close>

fun deliverSessions :: "app_state \<Rightarrow> (create_env \<times> chat_session list) list \<Rightarrow> effect list" where
  "deliverSessions c [] = []"
| "deliverSessions c ((env, sessions) # rest) = onSessionsSnapshot env c sessions @ deliverSessions c rest"

definition selectChatSession :: "app_state \<Rightarrow> string \<Rightarrow> effect list" where
  "selectChatSession s sessionId =
     SetCurrentSessionId sessionId
     # (if isDemoMode s then
          (case find (\<lambda>x. session_id x = sessionId) (chatSessions s) of
             Some session \<Rightarrow> [SetMessages (session_messages session)]
           | None \<Rightarrow> [])
        else [])"

text \<open>The effect "for fetching messages for the current session" and its listener.\<close>

definition messagesEffect :: "app_state \<Rightarrow> effect list" where
  "messagesEffect s =
     (if \<not> truthy (currentSessionId s) \<or> isDemoMode s then []
      else if isReady s \<and> db s \<and> truthy (userId s) then [SubscribeSessionDoc (the (currentSessionId s))]
      else [])"

text \<open>
  A document snapshot is \<open>None\<close> when \<open>docSnap.exists()\<close> is false, and otherwise the
  value of the field \<open>messages\<close> of its data, which may be any JavaScript value
  (\<open>JUndefined\<close> when the field is missing). The elements of an array are taken to be
  messages.
\<close>

datatype js_value =
    JUndefined
  | JNull
  | JBoolean bool
  | JNumber int
  | JString string
  | JObject
  | JArray "message list"

definition onMessagesSnapshot :: "js_value option \<Rightarrow> effect list" where
  "onMessagesSnapshot docSnap =
     (case docSnap of
        Some field \<Rightarrow> [SetMessages (case field of JArray ms \<Rightarrow> ms | _ \<Rightarrow> [])]
      | None \<Rightarrow> [SetMessages []])"

section \<open>Sessions (the Firestore-only revision, src/unnamed/part_000)\<close>

text \<open>
  Here \<open>currentSessionId\<close> is among the dependencies of the session effect: the listener
  is renewed, with a fresh closure, whenever the current session changes.
\<close>

definition createNewChatSession0 :: "create_env \<Rightarrow> app_state \<Rightarrow> effect list" where
  "createNewChatSession0 env s =
     (if \<not> db s \<or> \<not> truthy (userId s) then []
      else
        [SetLoading True, AddDoc (''New Chat '' @ date_string env)]
        @ (case added env of
             Some newId \<Rightarrow> [SetCurrentSessionId newId, SetMessages []]
           | None \<Rightarrow> [ConsoleError ''Error creating new chat session:''])
        @ [SetLoading False])"

definition onSessionsSnapshot0 :: "create_env \<Rightarrow> app_state \<Rightarrow> chat_session list \<Rightarrow> effect list" where
  "onSessionsSnapshot0 env c sessions =
     SetChatSessions sessions
     # (if \<not> truthy (currentSessionId c) \<and> sessions \<noteq> [] then [SetCurrentSessionId (session_id (hd sessions))]
        else if \<not> truthy (currentSessionId c) \<and> sessions = [] then createNewChatSession0 env c
        else [])"

section \<open>Initialization (chatbot.js)\<close>

text \<open>
  The global \<open>__firebase_config\<close> is a string or is undefined (\<open>None\<close>).
  \<open>JSON.parse\<close> throws, or yields \<open>null\<close> (on which the read of \<open>projectId\<close>
  throws), or yields a value whose property \<open>projectId\<close> is a string or is missing. The
  calls into the SDK return normally or one of them throws. An auth-state event carries the
  uid of the user, or \<open>null\<close>; the sign-in it then awaits resolves or rejects.
\<close>

datatype parse_outcome = SyntaxError | JsonNull | JsonValue "string option"

datatype sdk_outcome = SdkOk | InitializeAppThrows | GetFirestoreThrows | GetAuthThrows | OnAuthStateChangedThrows

record init_env =
  firebase_config :: "string option"
  parsed :: parse_outcome
  sdk :: sdk_outcome

datatype signin_outcome = SignInOk | SignInThrows

record auth_env =
  user :: "string option"
  initial_auth_token :: "string option"
  signin :: signin_outcome

definition initFailed :: "effect list" where
  "initFailed = [ConsoleError ''Failed to initialize Firebase:'', SetIsDemoMode True, SetIsReady True]"

definition initializeFirebase :: "init_env \<Rightarrow> effect list" where
  "initializeFirebase env =
     (if \<not> truthy (firebase_config env) then
        [ConsoleWarn ''Firebase configuration is missing. Running in demo mode.'', SetIsDemoMode True, SetIsReady True]
      else
        (case parsed env of
           SyntaxError \<Rightarrow> initFailed
         | JsonNull \<Rightarrow> initFailed
         | JsonValue projectId \<Rightarrow>
             if \<not> truthy projectId then
               [ConsoleWarn ''Firebase configuration is invalid: 'projectId' is missing. Running in demo mode.'',
                SetIsDemoMode True, SetIsReady True]
             else
               (case sdk env of
                  InitializeAppThrows \<Rightarrow> initFailed
                | GetFirestoreThrows \<Rightarrow> initFailed
                | GetAuthThrows \<Rightarrow> initFailed
                | OnAuthStateChangedThrows \<Rightarrow> [SetDb True, SetAuth True] @ initFailed
                | SdkOk \<Rightarrow> [SetDb True, SetAuth True, SubscribeAuth])))"

definition onAuthStateChanged :: "auth_env \<Rightarrow> effect list" where
  "onAuthStateChanged env =
     (case user env of
        Some uid \<Rightarrow> [SetUserId uid]
      | None \<Rightarrow>
          SignIn (initial_auth_token env)
          # (case signin env of
               SignInOk \<Rightarrow> []
             | SignInThrows \<Rightarrow> [ConsoleError ''Firebase Auth Error:'', SetIsDemoMode True]))
     @ [SetIsReady True]"

text \<open>
  Initialization as a whole: the effect, followed by the first auth-state event when the
  listener was registered.
\<close>

definition initialize :: "init_env \<Rightarrow> auth_env \<Rightarrow> effect list" where
  "initialize ienv aenv =
     initializeFirebase ienv
     @ (if SubscribeAuth \<in> set (initializeFirebase ienv) then onAuthStateChanged aenv else [])"

section \<open>Reading a trace\<close>

text \<open>
  The vocabulary of the properties below: the payloads of the generation calls of a trace,
  its writes of the \<open>loading\<close> cell, and its calls to the store and to the generation
  endpoint together with the in-memory session writes that stand for persistence in demo
  mode.
\<close>

fun payload_of :: "effect \<Rightarrow> content list list" where
  "payload_of (Fetch cs) = [cs]"
| "payload_of _ = []"

definition payloads :: "effect list \<Rightarrow> content list list" where
  "payloads es = concat (map payload_of es)"

fun loading_write :: "effect \<Rightarrow> bool list" where
  "loading_write (SetLoading b) = [b]"
| "loading_write _ = []"

definition loadingWrites :: "effect list \<Rightarrow> bool list" where
  "loadingWrites es = concat (map loading_write es)"

fun is_io :: "effect \<Rightarrow> bool" where
  "is_io (UpdateDoc _ _) = True"
| "is_io (AddDoc _) = True"
| "is_io (Fetch _) = True"
| "is_io (SetChatSessions _) = True"
| "is_io _ = False"

definition io :: "effect list \<Rightarrow> effect list" where
  "io es = filter is_io es"

text \<open>The documents a trace asks the store to create, and its writes to the store.\<close>

fun added_doc :: "effect \<Rightarrow> string list" where
  "added_doc (AddDoc t) = [t]"
| "added_doc _ = []"

definition addDocs :: "effect list \<Rightarrow> string list" where
  "addDocs es = concat (map added_doc es)"

fun is_store_write :: "effect \<Rightarrow> bool" where
  "is_store_write (AddDoc _) = True"
| "is_store_write (UpdateDoc _ _) = True"
| "is_store_write _ = False"

fun is_local_session_write :: "effect \<Rightarrow> bool" where
  "is_local_session_write (SetChatSessions _) = True"
| "is_local_session_write _ = False"

fun sets_mode :: "effect \<Rightarrow> bool" where
  "sets_mode (SetIsDemoMode _) = True"
| "sets_mode _ = False"

fun is_message_write :: "effect \<Rightarrow> bool" where
  "is_message_write (SetMessages _) = True"
| "is_message_write (AppendMessage _) = True"
| "is_message_write _ = False"

text \<open>A turn passes validation when the guard of \<open>handleSendMessage\<close> lets it through.\<close>

definition accepted :: "app_state \<Rightarrow> bool" where
  "accepted s = (trim (input s) \<noteq> [] \<and> \<not> loading s \<and> truthy (currentSessionId s))"

definition accepted0 :: "app_state \<Rightarrow> bool" where
  "accepted0 s = (accepted s \<and> db s \<and> truthy (userId s))"

definition userMessageOf :: "turn_env \<Rightarrow> app_state \<Rightarrow> message" where
  "userMessageOf env s = \<lparr>sender = ''user'', msg_text = trim (input s), timestamp = now_user env\<rparr>"

text \<open>The response of the turn, when the generation call and the reading of its body complete.\<close>

definition turnAnswer :: "turn_env \<Rightarrow> (effect list \<times> string) option" where
  "turnAnswer env = (case generation env of FetchRejects \<Rightarrow> None | FetchResolves r \<Rightarrow> aiResponseText r)"

definition aiMessageOf :: "turn_env \<Rightarrow> string \<Rightarrow> message" where
  "aiMessageOf env t = \<lparr>sender = ''ai'', msg_text = t, timestamp = now_ai env\<rparr>"

section \<open>Example inputs\<close>

definition session1 :: chat_session where
  "session1 = \<lparr>session_id = ''s1'', title = ''New Chat (Demo)'', session_messages = [], createdAt = ''t0'', updatedAt = ''t0''\<rparr>"

definition demo_state :: app_state where
  "demo_state = initial_state\<lparr>isReady := True, isDemoMode := True, chatSessions := [session1],
                               currentSessionId := Some ''s1'', input := '' hi ''\<rparr>"

definition persistent_state :: app_state where
  "persistent_state = initial_state\<lparr>isReady := True, db := True, auth := True, userId := Some ''u1'',
                                     currentSessionId := Some ''s1'', input := ''hi''\<rparr>"

definition earlier :: "message list" where
  "earlier = [\<lparr>sender = ''user'', msg_text = ''one'', timestamp = ''t0''\<rparr>,
              \<lparr>sender = ''ai'', msg_text = ''two'', timestamp = ''t0''\<rparr>]"

definition response_500 :: response where
  "response_500 = \<lparr>status = 500, body_text = Some ''Internal error'', body_json = None\<rparr>"

definition response_no_candidates :: response where
  "response_no_candidates = \<lparr>status = 200, body_text = Some ''{}'', body_json = Some \<lparr>candidates = None, api_error = None\<rparr>\<rparr>"

definition response_hello :: response where
  "response_hello = \<lparr>status = 200, body_text = Some ''...'',
                      body_json = Some \<lparr>candidates = Some [Some (Some [Some ''Hello''])], api_error = None\<rparr>\<rparr>"

definition env_of :: "write_outcome \<Rightarrow> fetch_outcome \<Rightarrow> write_outcome \<Rightarrow> turn_env" where
  "env_of uw g aw = \<lparr>now_user = ''t1'', now_ai = ''t2'', user_write = uw, generation = g, ai_write = aw, reread_text = None\<rparr>"

definition create_rejected :: create_env where
  "create_rejected = \<lparr>uuid = ''id-1'', now_create = ''t0'', date_string = ''1/1/2025'', added = None\<rparr>"

definition create_ok :: create_env where
  "create_ok = \<lparr>uuid = ''id-1'', now_create = ''t0'', date_string = ''1/1/2025'', added = Some ''doc-1''\<rparr>"

definition subscribed_state :: app_state where
  "subscribed_state = initial_state\<lparr>isReady := True, db := True, auth := True, userId := Some ''u1''\<rparr>"

definition demo_start :: app_state where
  "demo_start = initial_state\<lparr>isReady := True, isDemoMode := True\<rparr>"

definition config_without_project :: init_env where
  "config_without_project = \<lparr>firebase_config = Some ''{}'', parsed = JsonValue None, sdk = SdkOk\<rparr>"

definition config_unparsable :: init_env where
  "config_unparsable = \<lparr>firebase_config = Some ''{projectId'', parsed = SyntaxError, sdk = SdkOk\<rparr>"

definition config_sdk_throws :: init_env where
  "config_sdk_throws =
     \<lparr>firebase_config = Some ''{\"projectId\":\"p1\"}'', parsed = JsonValue (Some ''p1''), sdk = InitializeAppThrows\<rparr>"

definition config_good :: init_env where
  "config_good = \<lparr>firebase_config = Some ''{\"projectId\":\"p1\"}'', parsed = JsonValue (Some ''p1''), sdk = SdkOk\<rparr>"

definition signed_in :: auth_env where
  "signed_in = \<lparr>user = Some ''u1'', initial_auth_token = None, signin = SignInOk\<rparr>"

definition signin_fails :: auth_env where
  "signin_fails = \<lparr>user = None, initial_auth_token = None, signin = SignInThrows\<rparr>"

text \<open>
  A run that starts in persistent mode, receives one session from the store and has
  \<open>hi\<close> typed into the input, and the same run after a further auth-state event with no
  user whose sign-in throws.
\<close>

definition started :: app_state where
  "started = run (initialize config_good signed_in) initial_state"

definition in_session :: app_state where
  "in_session = (run (onSessionsSnapshot create_ok started [session1]) started)\<lparr>input := ''hi''\<rparr>"

definition after_auth_loss :: app_state where
  "after_auth_loss = run (onAuthStateChanged signin_fails) in_session"

section \<open>Properties\<close>

subsection \<open>Traces of a turn\<close>

text \<open>
  How the readings of a trace distribute over its parts, and what each block of
  \<open>handleSendMessage\<close> contributes to them.
\<close>

lemma truthy_simps: "truthy None = False" "truthy (Some x) = (x \<noteq> [])"
  by (simp_all add: truthy_def)

lemma io_simps:
  "io [] = []" "io (x # xs) = (if is_io x then x # io xs else io xs)" "io (xs @ ys) = io xs @ io ys"
  by (simp_all add: io_def)

lemma payloads_simps:
  "payloads [] = []" "payloads (x # xs) = payload_of x @ payloads xs"
  "payloads (xs @ ys) = payloads xs @ payloads ys"
  by (simp_all add: payloads_def)

lemma loadingWrites_simps:
  "loadingWrites [] = []" "loadingWrites (x # xs) = loading_write x @ loadingWrites xs"
  "loadingWrites (xs @ ys) = loadingWrites xs @ loadingWrites ys"
  by (simp_all add: loadingWrites_def)

lemma run_simps:
  "run [] s = s" "run (x # xs) s = run xs (apply_effect s x)" "run (xs @ ys) s = run ys (run xs s)"
  by (simp_all add: run_def)

lemma payloads_saveUser: "payloads (saveUserMessage env s sid U) = []"
  by (simp add: saveUserMessage_def payloads_simps split: write_outcome.splits)

lemma payloads_saveAi: "payloads (saveAiResponse env s sid U) = []"
  by (simp add: saveAiResponse_def payloads_simps split: write_outcome.splits)

lemma payloads_aiResponse: "payloads (aiResponse env s sid U) = [contents s U]"
  by (simp add: aiResponse_def payloads_simps appendAi_def aiResponseText_def payloads_saveAi Let_def
           split: fetch_outcome.splits option.splits prod.splits)

lemma payloads_handleSendMessage:
  "accepted s \<Longrightarrow> payloads (handleSendMessage env s) = [contents s (messages s @ [userMessageOf env s])]"
  by (simp add: handleSendMessage_def accepted_def Let_def payloads_simps payloads_saveUser payloads_aiResponse
                userMessageOf_def)

lemma loading_saveUser: "loadingWrites (saveUserMessage env s sid U) = []"
  by (simp add: saveUserMessage_def loadingWrites_simps split: write_outcome.splits)

lemma loading_saveAi: "loadingWrites (saveAiResponse env s sid U) = []"
  by (simp add: saveAiResponse_def loadingWrites_simps split: write_outcome.splits)

lemma loading_aiResponse: "loadingWrites (aiResponse env s sid U) = []"
  by (simp add: aiResponse_def loadingWrites_simps appendAi_def aiResponseText_def loading_saveAi Let_def
           split: fetch_outcome.splits option.splits prod.splits)

lemma loadingWrites_handleSendMessage: "accepted s \<Longrightarrow> loadingWrites (handleSendMessage env s) = [True, False]"
  by (simp add: handleSendMessage_def accepted_def Let_def loadingWrites_simps loading_saveUser loading_aiResponse)

lemma last_handleSendMessage: "accepted s \<Longrightarrow> last (handleSendMessage env s) = SetLoading False"
  by (simp add: handleSendMessage_def accepted_def Let_def)

lemma loading_after_turn: "accepted s \<Longrightarrow> \<not> loading (run (handleSendMessage env s) s)"
  by (simp add: handleSendMessage_def accepted_def Let_def run_def)

lemma io_saveUser:
  "io (saveUserMessage env s sid U) =
     (if isDemoMode s then [SetChatSessions (withMessages sid U (now_user env) (chatSessions s))]
      else if db s \<and> truthy (userId s) then [UpdateDoc sid U] else [])"
  by (simp add: saveUserMessage_def io_simps split: write_outcome.splits)

lemma io_saveAi:
  "io (saveAiResponse env s sid F) =
     (if isDemoMode s then [SetChatSessions (withMessages sid F (now_ai env) (chatSessions s))]
      else if db s \<and> truthy (userId s) then [UpdateDoc sid F] else [])"
  by (simp add: saveAiResponse_def io_simps split: write_outcome.splits)

lemma io_logged: "aiResponseText r = Some (logged, t) \<Longrightarrow> io logged = []"
  by (auto simp: aiResponseText_def io_simps split: if_splits option.splits)

lemma io_aiResponse:
  "io (aiResponse env s sid U) =
     Fetch (contents s U)
     # (case turnAnswer env of
          None \<Rightarrow> []
        | Some (logged, t) \<Rightarrow> io (saveAiResponse env s sid (U @ [aiMessageOf env t])))"
  by (auto simp: aiResponse_def turnAnswer_def appendAi_def aiMessageOf_def io_simps io_logged Let_def
           split: fetch_outcome.splits option.splits)

lemma io_handleSendMessage:
  "accepted s \<Longrightarrow> currentSessionId s = Some sid \<Longrightarrow> U = messages s @ [userMessageOf env s] \<Longrightarrow>
     io (handleSendMessage env s) =
       (if isDemoMode s then [SetChatSessions (withMessages sid U (now_user env) (chatSessions s))]
        else if db s \<and> truthy (userId s) then [UpdateDoc sid U] else [])
       @ [Fetch (contents s U)]
       @ (case turnAnswer env of
            None \<Rightarrow> []
          | Some (logged, t) \<Rightarrow>
              (if isDemoMode s then
                 [SetChatSessions (withMessages sid (U @ [aiMessageOf env t]) (now_ai env) (chatSessions s))]
               else if db s \<and> truthy (userId s) then [UpdateDoc sid (U @ [aiMessageOf env t])] else []))"
  by (auto simp: handleSendMessage_def accepted_def Let_def io_simps io_saveUser io_aiResponse io_saveAi
                 userMessageOf_def
           split: option.splits)

lemma messages_run_saveUser: "messages (run (saveUserMessage env s sid U) st) = messages st"
  by (simp add: saveUserMessage_def run_simps split: write_outcome.splits)

lemma messages_run_saveAi: "messages (run (saveAiResponse env s sid U) st) = messages st"
  by (simp add: saveAiResponse_def run_simps split: write_outcome.splits)

lemma messages_run_logged: "aiResponseText r = Some (logged, t) \<Longrightarrow> run logged st = st"
  by (auto simp: aiResponseText_def run_simps split: if_splits option.splits)

lemma messages_run_aiResponse:
  "messages (run (aiResponse env s sid U) st) =
     (case turnAnswer env of None \<Rightarrow> messages st | Some (logged, t) \<Rightarrow> U @ [aiMessageOf env t])"
  by (auto simp: aiResponse_def turnAnswer_def appendAi_def aiMessageOf_def run_simps messages_run_logged
                 messages_run_saveAi Let_def
           split: fetch_outcome.splits option.splits)

lemma displayed_after_turn:
  "accepted s \<Longrightarrow>
     messages (run (handleSendMessage env s) s) =
       (case turnAnswer env of
          None \<Rightarrow> messages s @ [userMessageOf env s]
        | Some (logged, t) \<Rightarrow> messages s @ [userMessageOf env s, aiMessageOf env t])"
  by (simp add: handleSendMessage_def accepted_def Let_def run_simps messages_run_saveUser messages_run_aiResponse
                userMessageOf_def split: option.splits)

lemma payloads_catch0: "payloads (catchTurn0 env) = []"
  by (simp add: catchTurn0_def payloads_simps)

lemma payloads_appendAi0: "payloads (appendAi0 env sid U t) = []"
  by (simp add: appendAi0_def payloads_simps payloads_catch0 Let_def split: write_outcome.splits)

lemma payloads_readResult0: "payloads (fst (readResult0 r)) = []"
  by (simp add: readResult0_def payloads_simps split: option.splits list.splits)

lemma payloads_aiResponse0: "payloads (aiResponse0 doc env s sid m) = [chatHistoryForModel doc s m]"
  by (simp add: aiResponse0_def payloads_simps payloads_catch0 payloads_appendAi0 payloads_readResult0
           split: fetch_outcome.splits option.splits)

lemma payloads0:
  "accepted0 s \<Longrightarrow> user_write env = WriteOk \<Longrightarrow>
     payloads (handleSendMessage0 doc env s) = [chatHistoryForModel doc s (userMessageOf env s)]"
  by (simp add: handleSendMessage0_def accepted0_def accepted_def Let_def payloads_simps payloads_aiResponse0
                userMessageOf_def)

lemma displayed_after_rejected_fetch0:
  "accepted0 s \<Longrightarrow> user_write env = WriteOk \<Longrightarrow> generation env = FetchRejects \<Longrightarrow>
     messages (run (handleSendMessage0 doc env s) s) = messages s @ [userMessageOf env s, errorMessage env]"
  by (simp add: handleSendMessage0_def accepted0_def accepted_def Let_def run_simps aiResponse0_def catchTurn0_def
                userMessageOf_def)

subsection \<open>The example inputs\<close>

lemma trim_hi: "trim ''hi'' = ''hi''" "trim '' hi '' = ''hi''" "trim ''  '' = []"
  by (simp_all add: trim_def isWhiteSpace_def)

lemma accepted_examples:
  "accepted persistent_state" "accepted demo_state" "accepted0 persistent_state"
  "accepted0 (persistent_state\<lparr>messages := earlier\<rparr>)"
  by (simp_all add: accepted_def accepted0_def persistent_state_def demo_state_def initial_state_def truthy_def trim_hi)

text \<open>
  C1 (as amended). In chatbot.js every accepted turn makes exactly one generation call, and
  its payload is: a user entry holding the system instructions followed by the reference
  text and the example text, a model entry holding the fixed acknowledgement, then every
  message of the history with the new user message last, each with role \<open>user\<close> or
  \<open>model\<close> by its sender; this holds for every length of the history. In the
  Firestore-only revision the payload has no leading exchange: with an empty history it is
  a single user entry holding the context followed by the user's text, and otherwise it is
  the mapped history alone.
\<close>

theorem C1_payload_by_revision:
  "(accepted s \<longrightarrow>
      payloads (handleSendMessage env s) =
        [\<lparr>role = ''user'',
          parts = [systemPrompt @ ''\<newline>\<newline>Perception.cx API Documentation:\<newline>'' @ perceptionDocContent s
                   @ ''\<newline>\<newline>Lua Code Examples for Learning:\<newline>'' @ luaExamplesContent s]\<rparr>
         # \<lparr>role = ''model'', parts = [acknowledgement]\<rparr>
         # map (\<lambda>m. \<lparr>role = (if sender m = ''user'' then ''user'' else ''model''), parts = [msg_text m]\<rparr>)
               (messages s @ [userMessageOf env s])])
   \<and> (accepted0 s \<and> user_write env = WriteOk \<longrightarrow>
      payloads (handleSendMessage0 doc env s) =
        [if messages s = [] then
           [\<lparr>role = ''user'', parts = [fullContextForModel doc @ ''\<newline>\<newline>User Query: '' @ trim (input s)]\<rparr>]
         else map (\<lambda>m. \<lparr>role = (if sender m = ''user'' then ''user'' else ''model''), parts = [msg_text m]\<rparr>)
                  (messages s @ [userMessageOf env s])])"
proof (intro conjI impI)
  assume "accepted s"
  then have "payloads (handleSendMessage env s) = [contents s (messages s @ [userMessageOf env s])]"
    by (rule payloads_handleSendMessage)
  then show "payloads (handleSendMessage env s) =
        [\<lparr>role = ''user'',
          parts = [systemPrompt @ ''\<newline>\<newline>Perception.cx API Documentation:\<newline>'' @ perceptionDocContent s
                   @ ''\<newline>\<newline>Lua Code Examples for Learning:\<newline>'' @ luaExamplesContent s]\<rparr>
         # \<lparr>role = ''model'', parts = [acknowledgement]\<rparr>
         # map (\<lambda>m. \<lparr>role = (if sender m = ''user'' then ''user'' else ''model''), parts = [msg_text m]\<rparr>)
               (messages s @ [userMessageOf env s])]"
    by (simp add: contents_def toContent_def)
next
  assume "accepted0 s \<and> user_write env = WriteOk"
  then have "payloads (handleSendMessage0 doc env s) = [chatHistoryForModel doc s (userMessageOf env s)]"
    by (simp add: payloads0)
  then show "payloads (handleSendMessage0 doc env s) =
        [if messages s = [] then
           [\<lparr>role = ''user'', parts = [fullContextForModel doc @ ''\<newline>\<newline>User Query: '' @ trim (input s)]\<rparr>]
         else map (\<lambda>m. \<lparr>role = (if sender m = ''user'' then ''user'' else ''model''), parts = [msg_text m]\<rparr>)
                  (messages s @ [userMessageOf env s])]"
    by (simp add: chatHistoryForModel_def toContent_def userMessageOf_def)
qed

theorem C1_counterexample:
  "payloads (handleSendMessage0 ''DOC'' (env_of WriteOk (FetchResolves response_hello) WriteOk) persistent_state) =
     [[\<lparr>role = ''user'', parts = [fullContextForModel ''DOC'' @ ''\<newline>\<newline>User Query: hi'']\<rparr>]]
   \<and> payloads (handleSendMessage0 ''DOC'' (env_of WriteOk (FetchResolves response_hello) WriteOk)
                 (persistent_state\<lparr>messages := earlier\<rparr>)) =
     [[\<lparr>role = ''user'', parts = [''one'']\<rparr>, \<lparr>role = ''model'', parts = [''two'']\<rparr>,
       \<lparr>role = ''user'', parts = [''hi'']\<rparr>]]"
proof -
  have w: "user_write (env_of WriteOk (FetchResolves response_hello) WriteOk) = WriteOk"
    by (simp add: env_of_def)
  note first = payloads0 [OF accepted_examples(3) w, of "''DOC''"]
  note later = payloads0 [OF accepted_examples(4) w, of "''DOC''"]
  show ?thesis
    unfolding first later
    by (simp add: env_of_def chatHistoryForModel_def userMessageOf_def toContent_def
                  persistent_state_def initial_state_def earlier_def trim_hi)
qed

theorem C1_witness:
  "accepted demo_state \<and> accepted0 (persistent_state\<lparr>messages := earlier\<rparr>)
   \<and> payloads (handleSendMessage (env_of WriteOk FetchRejects WriteOk) demo_state) =
       [[\<lparr>role = ''user'',
          parts = [systemPrompt @ ''\<newline>\<newline>Perception.cx API Documentation:\<newline>''
                   @ ''\<newline>\<newline>Lua Code Examples for Learning:\<newline>'']\<rparr>,
         \<lparr>role = ''model'', parts = [acknowledgement]\<rparr>,
         \<lparr>role = ''user'', parts = [''hi'']\<rparr>]]
   \<and> payloads (handleSendMessage0 ''DOC'' (env_of WriteOk FetchRejects WriteOk) (persistent_state\<lparr>messages := earlier\<rparr>)) =
       [[\<lparr>role = ''user'', parts = [''one'']\<rparr>, \<lparr>role = ''model'', parts = [''two'']\<rparr>,
         \<lparr>role = ''user'', parts = [''hi'']\<rparr>]]"
proof -
  have a: "accepted demo_state" and b: "accepted0 (persistent_state\<lparr>messages := earlier\<rparr>)"
    by (simp_all add: accepted_examples)
  have c: "user_write (env_of WriteOk FetchRejects WriteOk) = WriteOk"
    by (simp add: env_of_def)
  from C1_payload_by_revision [of demo_state "env_of WriteOk FetchRejects WriteOk" "''DOC''"] a
  have 1: "payloads (handleSendMessage (env_of WriteOk FetchRejects WriteOk) demo_state) =
       [[\<lparr>role = ''user'',
          parts = [systemPrompt @ ''\<newline>\<newline>Perception.cx API Documentation:\<newline>''
                   @ ''\<newline>\<newline>Lua Code Examples for Learning:\<newline>'']\<rparr>,
         \<lparr>role = ''model'', parts = [acknowledgement]\<rparr>,
         \<lparr>role = ''user'', parts = [''hi'']\<rparr>]]"
    by (simp add: demo_state_def initial_state_def userMessageOf_def trim_hi)
  from C1_payload_by_revision [of "persistent_state\<lparr>messages := earlier\<rparr>" "env_of WriteOk FetchRejects WriteOk" "''DOC''"] b c
  have 2: "payloads (handleSendMessage0 ''DOC'' (env_of WriteOk FetchRejects WriteOk) (persistent_state\<lparr>messages := earlier\<rparr>)) =
       [[\<lparr>role = ''user'', parts = [''one'']\<rparr>, \<lparr>role = ''model'', parts = [''two'']\<rparr>,
         \<lparr>role = ''user'', parts = [''hi'']\<rparr>]]"
    by (simp add: persistent_state_def initial_state_def userMessageOf_def trim_hi earlier_def)
  from a b 1 2 show ?thesis by simp
qed

text \<open>
  What the displayed list is after a turn whose generation call fails, by kind of failure.
  In chatbot.js a response with a status outside 200..299 whose body can be read, and a
  response with a status in 200..299 whose parsed body has no first candidate, no content,
  no parts, no first part, no text or an empty text, each leave the history, the user
  message and one AI message with the fixed substitute text; a rejected fetch, or a body
  that cannot be read, leaves the history and the user message only. In the Firestore-only
  revision a rejected fetch leaves the history, the user message and one AI message with a
  fixed error text.
\<close>

lemma generation_failures_displayed:
  "(accepted s \<and> generation env = FetchResolves r \<and> \<not> ok r \<and> body_text r \<noteq> None \<longrightarrow>
      messages (run (handleSendMessage env s) s) =
        messages s @ [userMessageOf env s,
                      aiMessageOf env ''There was an error connecting to the AI. Please check the console.''])
   \<and> (accepted s \<and> generation env = FetchResolves r \<and> ok r \<and> body_json r = Some res
        \<and> (firstText res = None \<or> firstText res = Some []) \<longrightarrow>
      messages (run (handleSendMessage env s) s) =
        messages s @ [userMessageOf env s, aiMessageOf env ''Sorry, I couldn't get a response.''])
   \<and> (accepted s
        \<and> (generation env = FetchRejects
            \<or> generation env = FetchResolves r \<and> (if ok r then body_json r = None else body_text r = None)) \<longrightarrow>
      messages (run (handleSendMessage env s) s) = messages s @ [userMessageOf env s])
   \<and> (accepted0 s \<and> user_write env = WriteOk \<and> generation env = FetchRejects \<longrightarrow>
      messages (run (handleSendMessage0 doc env s) s) = messages s @ [userMessageOf env s, errorMessage env])"
proof (intro conjI impI)
  assume h: "accepted s \<and> generation env = FetchResolves r \<and> \<not> ok r \<and> body_text r \<noteq> None"
  then have "turnAnswer env =
      Some ([ConsoleError ''AI API Error:''], ''There was an error connecting to the AI. Please check the console.'')"
    by (auto simp: turnAnswer_def aiResponseText_def)
  with h show "messages (run (handleSendMessage env s) s) =
        messages s @ [userMessageOf env s,
                      aiMessageOf env ''There was an error connecting to the AI. Please check the console.'']"
    by (simp add: displayed_after_turn)
next
  assume h: "accepted s \<and> generation env = FetchResolves r \<and> ok r \<and> body_json r = Some res
        \<and> (firstText res = None \<or> firstText res = Some [])"
  then have "turnAnswer env = Some ([], ''Sorry, I couldn't get a response.'')"
    by (auto simp: turnAnswer_def aiResponseText_def)
  with h show "messages (run (handleSendMessage env s) s) =
        messages s @ [userMessageOf env s, aiMessageOf env ''Sorry, I couldn't get a response.'']"
    by (simp add: displayed_after_turn)
next
  assume h: "accepted s
        \<and> (generation env = FetchRejects
            \<or> generation env = FetchResolves r \<and> (if ok r then body_json r = None else body_text r = None))"
  then have "turnAnswer env = None"
    by (auto simp: turnAnswer_def aiResponseText_def split: if_splits)
  with h show "messages (run (handleSendMessage env s) s) = messages s @ [userMessageOf env s]"
    by (simp add: displayed_after_turn)
next
  assume "accepted0 s \<and> user_write env = WriteOk \<and> generation env = FetchRejects"
  then show "messages (run (handleSendMessage0 doc env s) s) = messages s @ [userMessageOf env s, errorMessage env]"
    by (simp add: displayed_after_rejected_fetch0)
qed

text \<open>
  C2. The claim is that every failure of the generation call, a thrown one included, still
  ends with exactly one AI message in the displayed list. In chatbot.js a turn whose fetch is
  rejected ends with the user message and no AI message: the catch of the generation block
  only logs. In the same function a response with status 500 does end with the substitute
  AI message, and so does a rejected fetch in the Firestore-only revision, whose catch
  appends one.
\<close>

theorem C2_rejected_fetch_leaves_no_ai_message:
  "messages (run (handleSendMessage (env_of WriteOk FetchRejects WriteOk) persistent_state) persistent_state) =
     [\<lparr>sender = ''user'', msg_text = ''hi'', timestamp = ''t1''\<rparr>]
   \<and> messages (run (handleSendMessage (env_of WriteOk (FetchResolves response_500) WriteOk) persistent_state)
                    persistent_state) =
       [\<lparr>sender = ''user'', msg_text = ''hi'', timestamp = ''t1''\<rparr>,
        \<lparr>sender = ''ai'', msg_text = ''There was an error connecting to the AI. Please check the console.'',
         timestamp = ''t2''\<rparr>]
   \<and> messages (run (handleSendMessage0 ''DOC'' (env_of WriteOk FetchRejects WriteOk) persistent_state)
                    persistent_state) =
       [\<lparr>sender = ''user'', msg_text = ''hi'', timestamp = ''t1''\<rparr>,
        \<lparr>sender = ''ai'',
         msg_text = ''An unexpected error occurred while processing your request. Please check your console for details.'',
         timestamp = ''t2''\<rparr>]"
proof -
  have a: "accepted persistent_state" "accepted0 persistent_state"
    by (simp_all add: accepted_examples)
  have g: "generation (env_of WriteOk (FetchResolves response_500) WriteOk) = FetchResolves response_500"
    "generation (env_of WriteOk FetchRejects WriteOk) = FetchRejects"
    "user_write (env_of WriteOk FetchRejects WriteOk) = WriteOk"
    by (simp_all add: env_of_def)
  have r: "\<not> ok response_500" "body_text response_500 \<noteq> None"
    by (simp_all add: ok_def response_500_def)
  have v: "messages persistent_state = []" "trim (input persistent_state) = ''hi''"
    "now_user (env_of uw g' aw) = ''t1''" "now_ai (env_of uw g' aw) = ''t2''" for uw g' aw
    by (simp_all add: persistent_state_def initial_state_def env_of_def trim_hi)
  from a g r
    generation_failures_displayed [of persistent_state "env_of WriteOk (FetchResolves response_500) WriteOk" response_500
                                      "\<lparr>candidates = None, api_error = None\<rparr>" "''DOC''"]
    generation_failures_displayed [of persistent_state "env_of WriteOk FetchRejects WriteOk" response_500
                                      "\<lparr>candidates = None, api_error = None\<rparr>" "''DOC''"]
  show ?thesis
    by (simp add: v userMessageOf_def aiMessageOf_def errorMessage_def)
qed

theorem C2_witness:
  "accepted persistent_state
   \<and> generation (env_of WriteOk FetchRejects WriteOk) = FetchRejects
   \<and> map sender (messages (run (handleSendMessage (env_of WriteOk FetchRejects WriteOk) persistent_state)
                                 persistent_state)) = [''user'']
   \<and> map sender (messages (run (handleSendMessage (env_of WriteOk (FetchResolves response_500) WriteOk) persistent_state)
                                 persistent_state)) = [''user'', ''ai'']
   \<and> map sender (messages (run (handleSendMessage0 ''DOC'' (env_of WriteOk FetchRejects WriteOk) persistent_state)
                                 persistent_state)) = [''user'', ''ai'']"
proof -
  have a: "accepted persistent_state"
    by (simp add: accepted_examples)
  have g: "generation (env_of WriteOk FetchRejects WriteOk) = FetchRejects"
    by (simp add: env_of_def)
  from a g C2_rejected_fetch_leaves_no_ai_message show ?thesis
    by simp
qed

text \<open>
  C3. \<open>handleSendMessage\<close> does nothing when the trimmed input is empty, or a turn is in
  flight, or there is no current session: it issues no effect at all (no setter call, no
  store write, no generation call), so the state after it is the state before it.
\<close>

theorem C3_rejected_send_is_noop:
  "trim (input s) = [] \<or> loading s \<or> currentSessionId s = None \<Longrightarrow>
     handleSendMessage env s = [] \<and> run (handleSendMessage env s) s = s"
  by (auto simp: handleSendMessage_def run_def truthy_def)

theorem C3_witness:
  "trim (input (persistent_state\<lparr>input := ''  ''\<rparr>)) = []
   \<and> handleSendMessage (env_of WriteOk FetchRejects WriteOk) (persistent_state\<lparr>input := ''  ''\<rparr>) = []
   \<and> loading (persistent_state\<lparr>loading := True\<rparr>)
   \<and> handleSendMessage (env_of WriteOk FetchRejects WriteOk) (persistent_state\<lparr>loading := True\<rparr>) = []
   \<and> currentSessionId (persistent_state\<lparr>currentSessionId := None\<rparr>) = None
   \<and> handleSendMessage (env_of WriteOk FetchRejects WriteOk) (persistent_state\<lparr>currentSessionId := None\<rparr>) = []"
proof -
  have a: "trim (input (persistent_state\<lparr>input := ''  ''\<rparr>)) = []"
    by (simp add: trim_hi)
  have b: "loading (persistent_state\<lparr>loading := True\<rparr>)"
    by simp
  have c: "currentSessionId (persistent_state\<lparr>currentSessionId := None\<rparr>) = None"
    by simp
  from a b c
    C3_rejected_send_is_noop [of "persistent_state\<lparr>input := ''  ''\<rparr>" "env_of WriteOk FetchRejects WriteOk"]
    C3_rejected_send_is_noop [of "persistent_state\<lparr>loading := True\<rparr>" "env_of WriteOk FetchRejects WriteOk"]
    C3_rejected_send_is_noop [of "persistent_state\<lparr>currentSessionId := None\<rparr>" "env_of WriteOk FetchRejects WriteOk"]
  show ?thesis by simp
qed

subsection \<open>Session creation\<close>

lemma addDocs_simps:
  "addDocs [] = []" "addDocs (x # xs) = added_doc x @ addDocs xs"
  "addDocs (xs @ ys) = addDocs xs @ addDocs ys"
  by (simp_all add: addDocs_def)

lemma addDocs_create:
  "\<not> isDemoMode c \<Longrightarrow> db c \<Longrightarrow> truthy (userId c) \<Longrightarrow>
     addDocs (createNewChatSession env c) = [''New Chat '' @ date_string env]"
  by (simp add: createNewChatSession_def addDocs_simps split: option.splits)

lemma addDocs_snapshot:
  "\<not> isDemoMode c \<Longrightarrow> db c \<Longrightarrow> truthy (userId c) \<Longrightarrow>
     addDocs (onSessionsSnapshot env c sessions) = (if sessions = [] then [''New Chat '' @ date_string env] else [])"
  by (simp add: onSessionsSnapshot_def addDocs_simps addDocs_create split: list.splits)

lemma addDocs_deliver:
  "\<not> isDemoMode c \<Longrightarrow> db c \<Longrightarrow> truthy (userId c) \<Longrightarrow>
     addDocs (deliverSessions c snaps) =
       map (\<lambda>(env, sessions). ''New Chat '' @ date_string env) (filter (\<lambda>(env, sessions). sessions = []) snaps)"
proof (induction snaps)
  case Nil
  then show ?case by (simp add: addDocs_simps)
next
  case (Cons a snaps)
  obtain env sessions where a: "a = (env, sessions)" by (cases a)
  from Cons show ?case
    by (simp add: a addDocs_simps addDocs_snapshot)
qed

lemma demo_create:
  "isReady s \<Longrightarrow> isDemoMode s \<Longrightarrow> chatSessions s = [] \<Longrightarrow>
     chatSessions (run (sessionsEffect env s) s) =
       [\<lparr>session_id = uuid env, title = ''New Chat (Demo)'', session_messages = [],
         createdAt = now_create env, updatedAt = now_create env\<rparr>]
     \<and> currentSessionId (run (sessionsEffect env s) s) = Some (uuid env)
     \<and> isReady (run (sessionsEffect env s) s) \<and> isDemoMode (run (sessionsEffect env s) s)"
  by (simp add: sessionsEffect_def createNewChatSession_def run_simps)

lemma demo_no_second:
  "isReady s \<Longrightarrow> isDemoMode s \<Longrightarrow> chatSessions s \<noteq> [] \<Longrightarrow> sessionsEffect env s = []"
  by (simp add: sessionsEffect_def)

lemma addDocs_snapshot0:
  "db c \<Longrightarrow> truthy (userId c) \<Longrightarrow>
     addDocs (onSessionsSnapshot0 env c sessions) =
       (if sessions = [] \<and> \<not> truthy (currentSessionId c) then [''New Chat '' @ date_string env] else [])"
  by (simp add: onSessionsSnapshot0_def createNewChatSession0_def addDocs_simps split: option.splits)

lemma listener_closure:
  "sessionsEffect env c = [SubscribeSessions] \<Longrightarrow> \<not> isDemoMode c \<and> db c \<and> truthy (userId c)"
  by (auto simp: sessionsEffect_def createNewChatSession_def split: if_splits)

text \<open>
  C4 (as amended). Each observation of an empty session list triggers one creation, and
  nothing remembers an earlier one. In chatbot.js in persistent mode every empty snapshot
  delivered to a registered session listener issues one \<open>addDoc\<close>, so a second empty
  snapshot issues a second one. In demo mode the session effect, run with an empty in-memory list,
  puts exactly one new session in the list and makes it current, and run again on the
  resulting state it does nothing. In the Firestore-only revision an empty snapshot issues
  one \<open>addDoc\<close> when the closure of the listener has no current session, and none
  otherwise.
\<close>

theorem C4_creation_per_empty_observation:
  "(sessionsEffect env0 c = [SubscribeSessions] \<longrightarrow>
      length (addDocs (deliverSessions c snaps)) = length (filter (\<lambda>(env, sessions). sessions = []) snaps))
   \<and> (isReady s \<and> isDemoMode s \<and> chatSessions s = [] \<longrightarrow>
        length (chatSessions (run (sessionsEffect env s) s)) = 1
        \<and> currentSessionId (run (sessionsEffect env s) s) = Some (uuid env)
        \<and> sessionsEffect env' (run (sessionsEffect env s) s) = [])
   \<and> (db c \<and> truthy (userId c) \<longrightarrow>
        length (addDocs (onSessionsSnapshot0 env c [])) = (if truthy (currentSessionId c) then 0 else 1))"
proof (intro conjI impI)
  assume "sessionsEffect env0 c = [SubscribeSessions]"
  then have "\<not> isDemoMode c \<and> db c \<and> truthy (userId c)"
    by (rule listener_closure)
  then show "length (addDocs (deliverSessions c snaps)) = length (filter (\<lambda>(env, sessions). sessions = []) snaps)"
    by (simp add: addDocs_deliver)
next
  assume h: "isReady s \<and> isDemoMode s \<and> chatSessions s = []"
  then show "length (chatSessions (run (sessionsEffect env s) s)) = 1"
    by (simp add: demo_create)
  from h show "currentSessionId (run (sessionsEffect env s) s) = Some (uuid env)"
    by (simp add: demo_create)
  from h have "isReady (run (sessionsEffect env s) s)" "isDemoMode (run (sessionsEffect env s) s)"
    "chatSessions (run (sessionsEffect env s) s) \<noteq> []"
    by (simp_all add: demo_create)
  then show "sessionsEffect env' (run (sessionsEffect env s) s) = []"
    by (rule demo_no_second)
next
  assume "db c \<and> truthy (userId c)"
  then show "length (addDocs (onSessionsSnapshot0 env c [])) = (if truthy (currentSessionId c) then 0 else 1)"
    by (simp add: addDocs_snapshot0)
qed

lemma subscribed_facts:
  "\<not> isDemoMode subscribed_state" "db subscribed_state" "truthy (userId subscribed_state)"
  "isReady subscribed_state" "currentSessionId subscribed_state = None"
  by (simp_all add: subscribed_state_def initial_state_def truthy_def)

theorem C4_counterexample:
  "sessionsEffect create_rejected subscribed_state = [SubscribeSessions]
   \<and> addDocs (deliverSessions subscribed_state [(create_rejected, []), (create_rejected, [])]) =
       [''New Chat 1/1/2025'', ''New Chat 1/1/2025'']"
proof -
  note twice = addDocs_deliver [OF subscribed_facts(1-3), of "[(create_rejected, []), (create_rejected, [])]"]
  show ?thesis
    unfolding twice
    by (simp add: sessionsEffect_def subscribed_facts create_rejected_def)
qed

theorem C4_witness:
  "sessionsEffect create_ok subscribed_state = [SubscribeSessions]
   \<and> length (addDocs (deliverSessions subscribed_state [(create_ok, [])])) = 1
   \<and> isReady demo_start \<and> isDemoMode demo_start \<and> chatSessions demo_start = []
   \<and> length (chatSessions (run (sessionsEffect create_ok demo_start) demo_start)) = 1
   \<and> sessionsEffect create_ok (run (sessionsEffect create_ok demo_start) demo_start) = []
   \<and> length (addDocs (onSessionsSnapshot0 create_ok subscribed_state [])) = 1"
proof -
  have d: "isReady demo_start" "isDemoMode demo_start" "chatSessions demo_start = []"
    by (simp_all add: demo_start_def initial_state_def)
  have e: "sessionsEffect create_ok subscribed_state = [SubscribeSessions]"
    by (simp add: sessionsEffect_def subscribed_facts)
  from e d subscribed_facts
    C4_creation_per_empty_observation [of create_ok subscribed_state "[(create_ok, [])]" demo_start create_ok create_ok]
  show ?thesis by (simp add: truthy_simps)
qed

subsection \<open>Initialization and the mode\<close>


lemma demo_after_auth:
  "isDemoMode (run (onAuthStateChanged aenv) s) = (isDemoMode s \<or> user aenv = None \<and> signin aenv = SignInThrows)"
  "isReady (run (onAuthStateChanged aenv) s)"
  by (auto simp: onAuthStateChanged_def run_simps split: option.splits signin_outcome.splits)

lemma initializeFirebase_cases:
  "initializeFirebase ienv = [SetDb True, SetAuth True, SubscribeAuth]
   \<and> truthy (firebase_config ienv) \<and> (\<exists>p. parsed ienv = JsonValue p \<and> truthy p) \<and> sdk ienv = SdkOk
   \<or> SubscribeAuth \<notin> set (initializeFirebase ienv)
     \<and> isDemoMode (run (initializeFirebase ienv) s) \<and> isReady (run (initializeFirebase ienv) s)
     \<and> (\<not> truthy (firebase_config ienv) \<or> parsed ienv = SyntaxError \<or> parsed ienv = JsonNull
         \<or> (\<exists>p. parsed ienv = JsonValue p \<and> \<not> truthy p) \<or> sdk ienv \<noteq> SdkOk)"
  by (auto simp: initializeFirebase_def initFailed_def run_simps split: parse_outcome.splits sdk_outcome.splits)

lemma mode_after_initialize:
  "isDemoMode (run (initialize ienv aenv) initial_state) \<longleftrightarrow>
      \<not> truthy (firebase_config ienv)
      \<or> parsed ienv = SyntaxError \<or> parsed ienv = JsonNull
      \<or> (\<exists>p. parsed ienv = JsonValue p \<and> \<not> truthy p)
      \<or> sdk ienv \<noteq> SdkOk
      \<or> user aenv = None \<and> signin aenv = SignInThrows"
  using initializeFirebase_cases [of ienv initial_state]
  by (auto simp: initialize_def run_simps demo_after_auth initial_state_def)

lemma ready_after_initialize: "isReady (run (initialize ienv aenv) initial_state)"
  using initializeFirebase_cases [of ienv initial_state]
  by (auto simp: initialize_def run_simps demo_after_auth)

lemma demo_turn_no_store:
  "isDemoMode s \<Longrightarrow> filter is_store_write (handleSendMessage env s) = []"
  by (simp add: handleSendMessage_def Let_def saveUserMessage_def aiResponse_def appendAi_def saveAiResponse_def
                aiResponseText_def
           split: fetch_outcome.splits option.splits prod.splits)

lemma persistent_turn_no_local:
  "\<not> isDemoMode s \<Longrightarrow> filter is_local_session_write (handleSendMessage env s) = []"
  by (simp add: handleSendMessage_def Let_def saveUserMessage_def aiResponse_def appendAi_def saveAiResponse_def
                aiResponseText_def
           split: fetch_outcome.splits option.splits prod.splits write_outcome.splits)


lemma run_keeps_mode: "filter sets_mode es = [] \<Longrightarrow> isDemoMode (run es s) = isDemoMode s"
proof (induction es arbitrary: s)
  case Nil
  then show ?case by (simp add: run_simps)
next
  case (Cons e es)
  then show ?case by (cases e) (simp_all add: run_simps split: if_splits)
qed

lemma turn_keeps_mode: "filter sets_mode (handleSendMessage env s) = []"
  by (simp add: handleSendMessage_def Let_def saveUserMessage_def aiResponse_def appendAi_def saveAiResponse_def
                aiResponseText_def
           split: fetch_outcome.splits option.splits prod.splits write_outcome.splits)

lemma create_keeps_mode: "filter sets_mode (createNewChatSession cenv s) = []"
  by (simp add: createNewChatSession_def split: option.splits)

lemma select_shape:
  "selectChatSession s sid = [SetCurrentSessionId sid]
   \<or> (\<exists>ms. selectChatSession s sid = [SetCurrentSessionId sid, SetMessages ms])"
  unfolding selectChatSession_def
  by (cases "find (\<lambda>x. session_id x = sid) (chatSessions s)") auto

lemma select_keeps_mode: "filter sets_mode (selectChatSession s sid) = []"
  using select_shape [of s sid] by auto

text \<open>Where the writes of a turn and of a session creation go, by mode.\<close>

lemma store_saveUser:
  "filter is_store_write (saveUserMessage env s sid U) =
     (if \<not> isDemoMode s \<and> db s \<and> truthy (userId s) then [UpdateDoc sid U] else [])"
  by (simp add: saveUserMessage_def split: write_outcome.splits)

lemma store_saveAi:
  "filter is_store_write (saveAiResponse env s sid F) =
     (if \<not> isDemoMode s \<and> db s \<and> truthy (userId s) then [UpdateDoc sid F] else [])"
  by (simp add: saveAiResponse_def split: write_outcome.splits)

lemma store_logged: "aiResponseText r = Some (logged, t) \<Longrightarrow> filter is_store_write logged = []"
  by (auto simp: aiResponseText_def split: if_splits option.splits)

lemma store_aiResponse:
  "filter is_store_write (aiResponse env s sid U) =
     (case turnAnswer env of
        None \<Rightarrow> []
      | Some (logged, t) \<Rightarrow> filter is_store_write (saveAiResponse env s sid (U @ [aiMessageOf env t])))"
  by (auto simp: aiResponse_def turnAnswer_def appendAi_def aiMessageOf_def store_logged Let_def
           split: fetch_outcome.splits option.splits)

lemma store_writes_of_turn:
  "accepted s \<Longrightarrow> currentSessionId s = Some sid \<Longrightarrow> U = messages s @ [userMessageOf env s] \<Longrightarrow>
     filter is_store_write (handleSendMessage env s) =
       (if \<not> isDemoMode s \<and> db s \<and> truthy (userId s) then
          UpdateDoc sid U
          # (case turnAnswer env of None \<Rightarrow> [] | Some (logged, t) \<Rightarrow> [UpdateDoc sid (U @ [aiMessageOf env t])])
        else [])"
  by (auto simp: handleSendMessage_def accepted_def Let_def store_saveUser store_aiResponse store_saveAi
                 userMessageOf_def
           split: option.splits)

lemma local_saveUser:
  "filter is_local_session_write (saveUserMessage env s sid U) =
     (if isDemoMode s then [SetChatSessions (withMessages sid U (now_user env) (chatSessions s))] else [])"
  by (simp add: saveUserMessage_def split: write_outcome.splits)

lemma local_saveAi:
  "filter is_local_session_write (saveAiResponse env s sid F) =
     (if isDemoMode s then [SetChatSessions (withMessages sid F (now_ai env) (chatSessions s))] else [])"
  by (simp add: saveAiResponse_def split: write_outcome.splits)

lemma local_logged: "aiResponseText r = Some (logged, t) \<Longrightarrow> filter is_local_session_write logged = []"
  by (auto simp: aiResponseText_def split: if_splits option.splits)

lemma local_aiResponse:
  "filter is_local_session_write (aiResponse env s sid U) =
     (case turnAnswer env of
        None \<Rightarrow> []
      | Some (logged, t) \<Rightarrow> filter is_local_session_write (saveAiResponse env s sid (U @ [aiMessageOf env t])))"
  by (auto simp: aiResponse_def turnAnswer_def appendAi_def aiMessageOf_def local_logged Let_def
           split: fetch_outcome.splits option.splits)

lemma local_writes_of_turn:
  "accepted s \<Longrightarrow> currentSessionId s = Some sid \<Longrightarrow> U = messages s @ [userMessageOf env s] \<Longrightarrow>
     filter is_local_session_write (handleSendMessage env s) =
       (if isDemoMode s then
          SetChatSessions (withMessages sid U (now_user env) (chatSessions s))
          # (case turnAnswer env of
               None \<Rightarrow> []
             | Some (logged, t) \<Rightarrow>
                 [SetChatSessions (withMessages sid (U @ [aiMessageOf env t]) (now_ai env) (chatSessions s))])
        else [])"
  by (auto simp: handleSendMessage_def accepted_def Let_def local_saveUser local_aiResponse local_saveAi
                 userMessageOf_def
           split: option.splits)

lemma writes_of_create:
  "filter is_store_write (createNewChatSession cenv s) =
     (if \<not> isDemoMode s \<and> db s \<and> truthy (userId s) then [AddDoc (''New Chat '' @ date_string cenv)] else [])"
  "filter is_local_session_write (createNewChatSession cenv s) =
     (if isDemoMode s then
        [SetChatSessions
           (\<lparr>session_id = uuid cenv, title = ''New Chat (Demo)'', session_messages = [],
             createdAt = now_create cenv, updatedAt = now_create cenv\<rparr> # chatSessions s)]
      else [])"
  by (simp_all add: createNewChatSession_def split: option.splits)

lemma started_eq:
  "started = initial_state\<lparr>db := True, auth := True, userId := Some ''u1'', isReady := True\<rparr>"
  by (simp add: started_def initialize_def initializeFirebase_def onAuthStateChanged_def config_good_def
                signed_in_def run_simps truthy_simps)

lemma in_session_eq:
  "in_session = initial_state\<lparr>db := True, auth := True, userId := Some ''u1'', isReady := True,
                                chatSessions := [session1], currentSessionId := Some ''s1'', input := ''hi''\<rparr>"
  by (simp add: in_session_def started_eq onSessionsSnapshot_def run_simps truthy_simps initial_state_def session1_def)

lemma after_auth_loss_eq:
  "after_auth_loss = in_session\<lparr>isDemoMode := True\<rparr>"
  by (simp add: after_auth_loss_def in_session_eq onAuthStateChanged_def signin_fails_def run_simps initial_state_def)

lemma trajectory_facts:
  "accepted in_session" "accepted after_auth_loss"
  "currentSessionId in_session = Some ''s1''" "currentSessionId after_auth_loss = Some ''s1''"
  "\<not> isDemoMode in_session" "isDemoMode after_auth_loss"
  "db in_session" "truthy (userId in_session)"
  "messages in_session = []" "messages after_auth_loss = []"
  "chatSessions after_auth_loss = [session1]"
  "trim (input in_session) = ''hi''" "trim (input after_auth_loss) = ''hi''"
  by (simp_all add: after_auth_loss_eq in_session_eq initial_state_def accepted_def truthy_simps trim_hi)

lemma hello_answer:
  "turnAnswer (env_of uw (FetchResolves response_hello) aw) = Some ([], ''Hello'')"
  by (simp add: turnAnswer_def env_of_def aiResponseText_def response_hello_def ok_def firstText_def)

text \<open>
  C5 (as amended). After the initialization effect and, when the auth listener was
  registered, its first event, readiness is signalled, and the run is in demo mode exactly
  when the configuration is absent or empty, or parsing it throws or yields null, or it has
  no project identifier, or a call that sets up the SDK throws, or there is no user and the
  sign-in throws; otherwise it is in persistent mode. Every mutation uses the mode in force
  when it is called. In demo mode, sending a message writes the in-memory session list
  (once with the user message and once more with the AI message when there is one), creating
  a session prepends the new session to that list, and neither writes to the store. In
  persistent mode with a store handle and an identity, sending a message writes the session
  document in the store (likewise once or twice), creating a session adds a document, and
  neither writes to the in-memory list. Sending, creating and selecting leave the mode as it
  is. An auth-state event leaves the run in demo mode exactly when it was in demo mode or
  there is no user and the sign-in throws: such an event, at any time after initialization,
  turns a persistent run into a demo run, and nothing turns demo mode off.
\<close>

theorem C5_mode_decision:
  "(isDemoMode (run (initialize ienv aenv) initial_state) \<longleftrightarrow>
      \<not> truthy (firebase_config ienv)
      \<or> parsed ienv = SyntaxError \<or> parsed ienv = JsonNull
      \<or> (\<exists>p. parsed ienv = JsonValue p \<and> \<not> truthy p)
      \<or> sdk ienv \<noteq> SdkOk
      \<or> user aenv = None \<and> signin aenv = SignInThrows)
   \<and> isReady (run (initialize ienv aenv) initial_state)
   \<and> (isDemoMode s \<longrightarrow>
        filter is_store_write (handleSendMessage env s) = []
        \<and> filter is_store_write (createNewChatSession cenv s) = []
        \<and> filter is_local_session_write (createNewChatSession cenv s) =
            [SetChatSessions
               (\<lparr>session_id = uuid cenv, title = ''New Chat (Demo)'', session_messages = [],
                 createdAt = now_create cenv, updatedAt = now_create cenv\<rparr> # chatSessions s)])
   \<and> (isDemoMode s \<and> accepted s \<and> currentSessionId s = Some sid \<and> U = messages s @ [userMessageOf env s] \<longrightarrow>
        filter is_local_session_write (handleSendMessage env s) =
          SetChatSessions (withMessages sid U (now_user env) (chatSessions s))
          # (case turnAnswer env of
               None \<Rightarrow> []
             | Some (logged, t) \<Rightarrow>
                 [SetChatSessions (withMessages sid (U @ [aiMessageOf env t]) (now_ai env) (chatSessions s))]))
   \<and> (\<not> isDemoMode s \<longrightarrow>
        filter is_local_session_write (handleSendMessage env s) = []
        \<and> filter is_local_session_write (createNewChatSession cenv s) = [])
   \<and> (\<not> isDemoMode s \<and> db s \<and> truthy (userId s) \<longrightarrow>
        filter is_store_write (createNewChatSession cenv s) = [AddDoc (''New Chat '' @ date_string cenv)])
   \<and> (\<not> isDemoMode s \<and> db s \<and> truthy (userId s)
        \<and> accepted s \<and> currentSessionId s = Some sid \<and> U = messages s @ [userMessageOf env s] \<longrightarrow>
        filter is_store_write (handleSendMessage env s) =
          UpdateDoc sid U
          # (case turnAnswer env of None \<Rightarrow> [] | Some (logged, t) \<Rightarrow> [UpdateDoc sid (U @ [aiMessageOf env t])]))
   \<and> isDemoMode (run (handleSendMessage env s) s) = isDemoMode s
   \<and> isDemoMode (run (createNewChatSession cenv s) s) = isDemoMode s
   \<and> isDemoMode (run (selectChatSession s sid') s) = isDemoMode s
   \<and> isDemoMode (run (onAuthStateChanged aenv) s) = (isDemoMode s \<or> user aenv = None \<and> signin aenv = SignInThrows)"
proof (intro conjI impI)
  show "isDemoMode (run (initialize ienv aenv) initial_state) \<longleftrightarrow>
      \<not> truthy (firebase_config ienv)
      \<or> parsed ienv = SyntaxError \<or> parsed ienv = JsonNull
      \<or> (\<exists>p. parsed ienv = JsonValue p \<and> \<not> truthy p)
      \<or> sdk ienv \<noteq> SdkOk
      \<or> user aenv = None \<and> signin aenv = SignInThrows"
    by (rule mode_after_initialize)
  show "isReady (run (initialize ienv aenv) initial_state)"
    by (rule ready_after_initialize)
  show "isDemoMode (run (handleSendMessage env s) s) = isDemoMode s"
    by (rule run_keeps_mode [OF turn_keeps_mode])
  show "isDemoMode (run (createNewChatSession cenv s) s) = isDemoMode s"
    by (rule run_keeps_mode [OF create_keeps_mode])
  show "isDemoMode (run (selectChatSession s sid') s) = isDemoMode s"
    by (rule run_keeps_mode [OF select_keeps_mode])
  show "isDemoMode (run (onAuthStateChanged aenv) s) = (isDemoMode s \<or> user aenv = None \<and> signin aenv = SignInThrows)"
    by (rule demo_after_auth(1))
next
  assume d: "isDemoMode s"
  then show "filter is_store_write (handleSendMessage env s) = []"
    by (rule demo_turn_no_store)
  from d show "filter is_store_write (createNewChatSession cenv s) = []"
    by (simp add: writes_of_create)
  from d show "filter is_local_session_write (createNewChatSession cenv s) =
            [SetChatSessions
               (\<lparr>session_id = uuid cenv, title = ''New Chat (Demo)'', session_messages = [],
                 createdAt = now_create cenv, updatedAt = now_create cenv\<rparr> # chatSessions s)]"
    by (simp add: writes_of_create)
next
  assume "isDemoMode s \<and> accepted s \<and> currentSessionId s = Some sid \<and> U = messages s @ [userMessageOf env s]"
  then show "filter is_local_session_write (handleSendMessage env s) =
          SetChatSessions (withMessages sid U (now_user env) (chatSessions s))
          # (case turnAnswer env of
               None \<Rightarrow> []
             | Some (logged, t) \<Rightarrow>
                 [SetChatSessions (withMessages sid (U @ [aiMessageOf env t]) (now_ai env) (chatSessions s))])"
    using local_writes_of_turn [of s sid U env] by simp
next
  assume p: "\<not> isDemoMode s"
  then show "filter is_local_session_write (handleSendMessage env s) = []"
    by (rule persistent_turn_no_local)
  from p show "filter is_local_session_write (createNewChatSession cenv s) = []"
    by (simp add: writes_of_create)
next
  assume "\<not> isDemoMode s \<and> db s \<and> truthy (userId s)"
  then show "filter is_store_write (createNewChatSession cenv s) = [AddDoc (''New Chat '' @ date_string cenv)]"
    by (simp add: writes_of_create)
next
  assume "\<not> isDemoMode s \<and> db s \<and> truthy (userId s)
        \<and> accepted s \<and> currentSessionId s = Some sid \<and> U = messages s @ [userMessageOf env s]"
  then show "filter is_store_write (handleSendMessage env s) =
          UpdateDoc sid U
          # (case turnAnswer env of None \<Rightarrow> [] | Some (logged, t) \<Rightarrow> [UpdateDoc sid (U @ [aiMessageOf env t])])"
    using store_writes_of_turn [of s sid U env] by simp
qed

theorem C5_counterexample:
  "isDemoMode (run (initialize config_sdk_throws signed_in) initial_state)
   \<and> firebase_config config_sdk_throws = Some ''{\"projectId\":\"p1\"}''
   \<and> parsed config_sdk_throws = JsonValue (Some ''p1'')
   \<and> initialize config_sdk_throws signed_in = [ConsoleError ''Failed to initialize Firebase:'', SetIsDemoMode True, SetIsReady True]
   \<and> isDemoMode (run (initialize config_unparsable signed_in) initial_state)
   \<and> firebase_config config_unparsable = Some ''{projectId''
   \<and> \<not> isDemoMode (run (initialize config_good signed_in) initial_state)
   \<and> \<not> isDemoMode in_session
   \<and> filter is_store_write (handleSendMessage (env_of WriteOk (FetchResolves response_hello) WriteOk) in_session) =
       [UpdateDoc ''s1'' [\<lparr>sender = ''user'', msg_text = ''hi'', timestamp = ''t1''\<rparr>],
        UpdateDoc ''s1'' [\<lparr>sender = ''user'', msg_text = ''hi'', timestamp = ''t1''\<rparr>,
                          \<lparr>sender = ''ai'', msg_text = ''Hello'', timestamp = ''t2''\<rparr>]]
   \<and> isDemoMode after_auth_loss
   \<and> filter is_store_write (handleSendMessage (env_of WriteOk (FetchResolves response_hello) WriteOk) after_auth_loss) = []
   \<and> filter is_local_session_write
        (handleSendMessage (env_of WriteOk (FetchResolves response_hello) WriteOk) after_auth_loss) =
       [SetChatSessions
          [session1\<lparr>session_messages := [\<lparr>sender = ''user'', msg_text = ''hi'', timestamp = ''t1''\<rparr>],
                     updatedAt := ''t1''\<rparr>],
        SetChatSessions
          [session1\<lparr>session_messages := [\<lparr>sender = ''user'', msg_text = ''hi'', timestamp = ''t1''\<rparr>,
                                            \<lparr>sender = ''ai'', msg_text = ''Hello'', timestamp = ''t2''\<rparr>],
                     updatedAt := ''t2''\<rparr>]]"
proof -
  have i: "isDemoMode (run (initialize config_sdk_throws signed_in) initial_state)
     \<and> firebase_config config_sdk_throws = Some ''{\"projectId\":\"p1\"}''
     \<and> parsed config_sdk_throws = JsonValue (Some ''p1'')
     \<and> initialize config_sdk_throws signed_in = [ConsoleError ''Failed to initialize Firebase:'', SetIsDemoMode True, SetIsReady True]
     \<and> isDemoMode (run (initialize config_unparsable signed_in) initial_state)
     \<and> firebase_config config_unparsable = Some ''{projectId''"
    by (simp add: initialize_def initializeFirebase_def initFailed_def run_simps config_sdk_throws_def
                  config_unparsable_def truthy_def)
  have g: "\<not> isDemoMode (run (initialize config_good signed_in) initial_state)"
    using started_eq by (simp add: started_def initial_state_def)
  have v: "now_user (env_of uw g' aw) = ''t1''" "now_ai (env_of uw g' aw) = ''t2''" for uw g' aw
    by (simp_all add: env_of_def)
  have w1: "filter is_store_write (handleSendMessage (env_of WriteOk (FetchResolves response_hello) WriteOk) in_session) =
       [UpdateDoc ''s1'' [\<lparr>sender = ''user'', msg_text = ''hi'', timestamp = ''t1''\<rparr>],
        UpdateDoc ''s1'' [\<lparr>sender = ''user'', msg_text = ''hi'', timestamp = ''t1''\<rparr>,
                          \<lparr>sender = ''ai'', msg_text = ''Hello'', timestamp = ''t2''\<rparr>]]"
    by (simp add: store_writes_of_turn [OF trajectory_facts(1) trajectory_facts(3) refl] trajectory_facts
                  hello_answer userMessageOf_def aiMessageOf_def v)
  have w2: "filter is_store_write (handleSendMessage (env_of WriteOk (FetchResolves response_hello) WriteOk) after_auth_loss) = []"
    by (simp add: demo_turn_no_store trajectory_facts)
  have w3: "filter is_local_session_write
        (handleSendMessage (env_of WriteOk (FetchResolves response_hello) WriteOk) after_auth_loss) =
       [SetChatSessions
          [session1\<lparr>session_messages := [\<lparr>sender = ''user'', msg_text = ''hi'', timestamp = ''t1''\<rparr>],
                     updatedAt := ''t1''\<rparr>],
        SetChatSessions
          [session1\<lparr>session_messages := [\<lparr>sender = ''user'', msg_text = ''hi'', timestamp = ''t1''\<rparr>,
                                            \<lparr>sender = ''ai'', msg_text = ''Hello'', timestamp = ''t2''\<rparr>],
                     updatedAt := ''t2''\<rparr>]]"
    by (simp add: local_writes_of_turn [OF trajectory_facts(2) trajectory_facts(4) refl] trajectory_facts
                  hello_answer userMessageOf_def aiMessageOf_def v withMessages_def session1_def)
  from i g w1 w2 w3 trajectory_facts(5,6) show ?thesis
    by blast
qed

theorem C5_witness:
  "isDemoMode (run (initialize config_without_project signed_in) initial_state)
   \<and> isDemoMode (run (initialize config_good signin_fails) initial_state)
   \<and> \<not> isDemoMode (run (initialize config_good signed_in) initial_state)
   \<and> isReady (run (initialize config_good signed_in) initial_state)
   \<and> isDemoMode after_auth_loss \<and> accepted after_auth_loss \<and> currentSessionId after_auth_loss = Some ''s1''
   \<and> filter is_store_write (handleSendMessage (env_of WriteOk (FetchResolves response_hello) WriteOk) after_auth_loss) = []
   \<and> length (filter is_local_session_write
                (handleSendMessage (env_of WriteOk (FetchResolves response_hello) WriteOk) after_auth_loss)) = 2
   \<and> length (filter is_local_session_write (createNewChatSession create_ok after_auth_loss)) = 1
   \<and> \<not> isDemoMode in_session \<and> db in_session \<and> truthy (userId in_session)
   \<and> accepted in_session \<and> currentSessionId in_session = Some ''s1''
   \<and> filter is_local_session_write
        (handleSendMessage (env_of WriteOk (FetchResolves response_hello) WriteOk) in_session) = []
   \<and> filter is_store_write (handleSendMessage (env_of WriteOk (FetchResolves response_hello) WriteOk) in_session) =
       [UpdateDoc ''s1'' [\<lparr>sender = ''user'', msg_text = ''hi'', timestamp = ''t1''\<rparr>],
        UpdateDoc ''s1'' [\<lparr>sender = ''user'', msg_text = ''hi'', timestamp = ''t1''\<rparr>,
                          \<lparr>sender = ''ai'', msg_text = ''Hello'', timestamp = ''t2''\<rparr>]]
   \<and> filter is_store_write (createNewChatSession create_ok in_session) = [AddDoc ''New Chat 1/1/2025'']
   \<and> isDemoMode (run (onAuthStateChanged signin_fails) in_session)"
proof -
  have c: "truthy (firebase_config config_good)" "parsed config_good = JsonValue (Some ''p1'')" "sdk config_good = SdkOk"
    "truthy (firebase_config config_without_project)" "parsed config_without_project = JsonValue None"
    "user signed_in = Some ''u1''" "user signin_fails = None" "signin signin_fails = SignInThrows"
    by (simp_all add: config_good_def config_without_project_def signed_in_def signin_fails_def truthy_simps)
  have v: "now_user (env_of uw g' aw) = ''t1''" "now_ai (env_of uw g' aw) = ''t2''"
    "date_string create_ok = ''1/1/2025''" for uw g' aw
    by (simp_all add: env_of_def create_ok_def)
  note t = trajectory_facts
  from t
    C5_mode_decision [of config_without_project signed_in after_auth_loss
                         "env_of WriteOk (FetchResolves response_hello) WriteOk" create_ok "''s1''"
                         "messages after_auth_loss @ [userMessageOf (env_of WriteOk (FetchResolves response_hello) WriteOk) after_auth_loss]"]
    C5_mode_decision [of config_good signin_fails in_session
                         "env_of WriteOk (FetchResolves response_hello) WriteOk" create_ok "''s1''"
                         "messages in_session @ [userMessageOf (env_of WriteOk (FetchResolves response_hello) WriteOk) in_session]"]
    C5_mode_decision [of config_good signed_in in_session
                         "env_of WriteOk (FetchResolves response_hello) WriteOk" create_ok "''s1''"
                         "messages in_session @ [userMessageOf (env_of WriteOk (FetchResolves response_hello) WriteOk) in_session]"]
  show ?thesis
    by (simp add: c v truthy_simps hello_answer userMessageOf_def aiMessageOf_def)
qed

text \<open>
  C6. Among the persistence writes and the generation call of an accepted turn, the write of
  the user message (to the store, or to the in-memory session in demo mode) comes first,
  the generation call second and the write of the AI message last; the generation call is
  made whatever the outcome of the first write, and the AI write is issued only after it,
  when the call has produced a response.
\<close>

theorem C6_turn_effect_order:
  "accepted s \<Longrightarrow> currentSessionId s = Some sid \<Longrightarrow> U = messages s @ [userMessageOf env s] \<Longrightarrow>
     io (handleSendMessage env s) =
       (if isDemoMode s then [SetChatSessions (withMessages sid U (now_user env) (chatSessions s))]
        else if db s \<and> truthy (userId s) then [UpdateDoc sid U] else [])
       @ [Fetch (contents s U)]
       @ (case turnAnswer env of
            None \<Rightarrow> []
          | Some (logged, t) \<Rightarrow>
              (if isDemoMode s then
                 [SetChatSessions (withMessages sid (U @ [aiMessageOf env t]) (now_ai env) (chatSessions s))]
               else if db s \<and> truthy (userId s) then [UpdateDoc sid (U @ [aiMessageOf env t])] else []))"
  by (rule io_handleSendMessage)

theorem C6_witness:
  "accepted persistent_state \<and> currentSessionId persistent_state = Some ''s1''
   \<and> io (handleSendMessage (env_of WriteThrows (FetchResolves response_hello) WriteOk) persistent_state) =
       [UpdateDoc ''s1'' [\<lparr>sender = ''user'', msg_text = ''hi'', timestamp = ''t1''\<rparr>],
        Fetch (contents persistent_state [\<lparr>sender = ''user'', msg_text = ''hi'', timestamp = ''t1''\<rparr>]),
        UpdateDoc ''s1'' [\<lparr>sender = ''user'', msg_text = ''hi'', timestamp = ''t1''\<rparr>,
                          \<lparr>sender = ''ai'', msg_text = ''Hello'', timestamp = ''t2''\<rparr>]]"
proof -
  have a: "accepted persistent_state" "currentSessionId persistent_state = Some ''s1''"
    by (simp_all add: accepted_examples) (simp add: persistent_state_def)
  have t: "turnAnswer (env_of WriteThrows (FetchResolves response_hello) WriteOk) = Some ([], ''Hello'')"
    by (simp add: turnAnswer_def env_of_def aiResponseText_def response_hello_def ok_def firstText_def)
  have v: "messages persistent_state = []" "trim (input persistent_state) = ''hi''"
    "\<not> isDemoMode persistent_state" "db persistent_state" "truthy (userId persistent_state)"
    "now_user (env_of uw g' aw) = ''t1''" "now_ai (env_of uw g' aw) = ''t2''" for uw g' aw
    by (simp_all add: persistent_state_def initial_state_def env_of_def trim_hi truthy_def)
  from a C6_turn_effect_order [OF a(1) a(2) refl, of "env_of WriteThrows (FetchResolves response_hello) WriteOk"]
  show ?thesis
    by (simp add: t v userMessageOf_def aiMessageOf_def)
qed

text \<open>
  C7. An accepted turn writes the \<open>loading\<close> cell exactly twice: \<open>true\<close> once the
  guard is passed and \<open>false\<close> as its last effect, whatever the outcomes of the two
  persistence writes and of the generation call (a throw included); so the state after the
  turn has \<open>loading\<close> false.
\<close>

theorem C7_loading_cleared:
  "accepted s \<Longrightarrow>
     loadingWrites (handleSendMessage env s) = [True, False]
     \<and> take 3 (handleSendMessage env s) = [SetMessages (messages s @ [userMessageOf env s]), SetInput [], SetLoading True]
     \<and> last (handleSendMessage env s) = SetLoading False
     \<and> \<not> loading (run (handleSendMessage env s) s)"
  by (simp add: loadingWrites_handleSendMessage last_handleSendMessage loading_after_turn)
     (simp add: handleSendMessage_def accepted_def Let_def userMessageOf_def)

theorem C7_witness:
  "accepted persistent_state
   \<and> loadingWrites (handleSendMessage (env_of WriteThrows FetchRejects WriteThrows) persistent_state) = [True, False]
   \<and> \<not> loading (run (handleSendMessage (env_of WriteThrows FetchRejects WriteThrows) persistent_state) persistent_state)
   \<and> \<not> loading (run (handleSendMessage (env_of WriteOk (FetchResolves response_hello) WriteThrows) persistent_state)
                       persistent_state)"
proof -
  have a: "accepted persistent_state"
    by (simp add: accepted_examples)
  from a C7_loading_cleared [OF a, of "env_of WriteThrows FetchRejects WriteThrows"]
    C7_loading_cleared [OF a, of "env_of WriteOk (FetchResolves response_hello) WriteThrows"]
  show ?thesis by simp
qed

subsection \<open>Selecting a session\<close>


lemma select_persistent:
  "\<not> isDemoMode s \<Longrightarrow> run (selectChatSession s sid) s = s\<lparr>currentSessionId := Some sid\<rparr>"
  by (simp add: selectChatSession_def run_simps)

lemma select_demo_found:
  "isDemoMode s \<Longrightarrow> find (\<lambda>x. session_id x = sid) (chatSessions s) = Some x \<Longrightarrow>
     run (selectChatSession s sid) s = s\<lparr>currentSessionId := Some sid, messages := session_messages x\<rparr>"
  by (simp add: selectChatSession_def run_simps)

lemma messagesEffect_no_write: "filter is_message_write (messagesEffect s) = []"
  by (simp add: messagesEffect_def)

text \<open>
  C8 (as amended). \<open>selectChatSession\<close> sets the current session. In demo mode, when the
  id is that of a session of the in-memory list, it replaces the displayed list by the
  messages of that session in the same step. In persistent mode it leaves the displayed list
  as it is, and the message effect that then runs only registers the listener of the new
  document: nothing clears the list, which keeps the messages of the previous session
  until a snapshot of the new document replaces them.
\<close>

theorem C8_selection_keeps_or_swaps:
  "(\<not> isDemoMode s \<longrightarrow>
      run (selectChatSession s sid) s = s\<lparr>currentSessionId := Some sid\<rparr>
      \<and> messages (run (selectChatSession s sid) s) = messages s
      \<and> filter is_message_write (messagesEffect (run (selectChatSession s sid) s)) = [])
   \<and> (isDemoMode s \<and> find (\<lambda>x. session_id x = sid) (chatSessions s) = Some x \<longrightarrow>
        currentSessionId (run (selectChatSession s sid) s) = Some sid
        \<and> messages (run (selectChatSession s sid) s) = session_messages x)"
  by (simp add: select_persistent select_demo_found messagesEffect_no_write)

theorem C8_counterexample:
  "currentSessionId (persistent_state\<lparr>messages := earlier\<rparr>) = Some ''s1''
   \<and> currentSessionId (run (selectChatSession (persistent_state\<lparr>messages := earlier\<rparr>) ''s2'')
                            (persistent_state\<lparr>messages := earlier\<rparr>)) = Some ''s2''
   \<and> messages (run (selectChatSession (persistent_state\<lparr>messages := earlier\<rparr>) ''s2'')
                    (persistent_state\<lparr>messages := earlier\<rparr>)) = earlier
   \<and> messagesEffect (run (selectChatSession (persistent_state\<lparr>messages := earlier\<rparr>) ''s2'')
                         (persistent_state\<lparr>messages := earlier\<rparr>)) = [SubscribeSessionDoc ''s2'']"
  by (simp add: selectChatSession_def run_simps messagesEffect_def persistent_state_def initial_state_def truthy_def)

theorem C8_witness:
  "\<not> isDemoMode (persistent_state\<lparr>messages := earlier\<rparr>)
   \<and> messages (run (selectChatSession (persistent_state\<lparr>messages := earlier\<rparr>) ''s2'')
                    (persistent_state\<lparr>messages := earlier\<rparr>)) = earlier
   \<and> isDemoMode (demo_state\<lparr>chatSessions := [session1\<lparr>session_messages := earlier\<rparr>]\<rparr>)
   \<and> find (\<lambda>x. session_id x = ''s1'') (chatSessions (demo_state\<lparr>chatSessions := [session1\<lparr>session_messages := earlier\<rparr>]\<rparr>))
       = Some (session1\<lparr>session_messages := earlier\<rparr>)
   \<and> messages (run (selectChatSession (demo_state\<lparr>chatSessions := [session1\<lparr>session_messages := earlier\<rparr>]\<rparr>) ''s1'')
                    (demo_state\<lparr>chatSessions := [session1\<lparr>session_messages := earlier\<rparr>]\<rparr>)) = earlier"
proof -
  have a: "\<not> isDemoMode (persistent_state\<lparr>messages := earlier\<rparr>)"
    by (simp add: persistent_state_def initial_state_def)
  have b: "isDemoMode (demo_state\<lparr>chatSessions := [session1\<lparr>session_messages := earlier\<rparr>]\<rparr>)"
    by (simp add: demo_state_def initial_state_def)
  have c: "find (\<lambda>x. session_id x = ''s1'') (chatSessions (demo_state\<lparr>chatSessions := [session1\<lparr>session_messages := earlier\<rparr>]\<rparr>))
       = Some (session1\<lparr>session_messages := earlier\<rparr>)"
    by (simp add: session1_def)
  from a b c
    C8_selection_keeps_or_swaps [of "persistent_state\<lparr>messages := earlier\<rparr>" "''s2''"]
    C8_selection_keeps_or_swaps [of "demo_state\<lparr>chatSessions := [session1\<lparr>session_messages := earlier\<rparr>]\<rparr>" "''s1''"
                                    "session1\<lparr>session_messages := earlier\<rparr>"]
  show ?thesis by simp
qed

text \<open>
  C9. On a snapshot of the current session's document the displayed list becomes the field
  \<open>messages\<close> of the document when that field is an array, and the empty list when the
  document does not exist or the field is missing or is any other value. The listener is
  registered only outside demo mode.
\<close>

theorem C9_only_arrays_are_displayed:
  "(\<forall>ms. docSnap = Some (JArray ms) \<longrightarrow>
      onMessagesSnapshot docSnap = [SetMessages ms] \<and> messages (run (onMessagesSnapshot docSnap) s) = ms)
   \<and> (docSnap = None \<or> (\<exists>v. docSnap = Some v \<and> (\<forall>ms. v \<noteq> JArray ms)) \<longrightarrow>
        onMessagesSnapshot docSnap = [SetMessages []] \<and> messages (run (onMessagesSnapshot docSnap) s) = [])
   \<and> (messagesEffect s \<noteq> [] \<longrightarrow> \<not> isDemoMode s \<and> messagesEffect s = [SubscribeSessionDoc (the (currentSessionId s))])"
  by (auto simp: onMessagesSnapshot_def run_simps messagesEffect_def split: option.splits js_value.splits if_splits)

theorem C9_witness:
  "messages (run (onMessagesSnapshot (Some (JArray earlier))) persistent_state) = earlier
   \<and> messages (run (onMessagesSnapshot None) (persistent_state\<lparr>messages := earlier\<rparr>)) = []
   \<and> messages (run (onMessagesSnapshot (Some JUndefined)) (persistent_state\<lparr>messages := earlier\<rparr>)) = []
   \<and> messages (run (onMessagesSnapshot (Some (JString ''abc''))) (persistent_state\<lparr>messages := earlier\<rparr>)) = []
   \<and> messagesEffect persistent_state = [SubscribeSessionDoc ''s1'']"
proof -
  have e: "messagesEffect persistent_state \<noteq> []"
    by (simp add: messagesEffect_def persistent_state_def initial_state_def truthy_def)
  from e
    C9_only_arrays_are_displayed [of "Some (JArray earlier)" persistent_state]
    C9_only_arrays_are_displayed [of None "persistent_state\<lparr>messages := earlier\<rparr>"]
    C9_only_arrays_are_displayed [of "Some JUndefined" "persistent_state\<lparr>messages := earlier\<rparr>"]
    C9_only_arrays_are_displayed [of "Some (JString ''abc'')" "persistent_state\<lparr>messages := earlier\<rparr>"]
  show ?thesis
    by (auto simp: persistent_state_def initial_state_def)
qed

text \<open>
  C10. In demo mode, selecting an id that no session of the in-memory list has sets that
  id as the current session and leaves the displayed list unchanged; no listener is
  registered that would change it later.
\<close>

theorem C10_demo_unknown_session:
  "isDemoMode s \<Longrightarrow> \<forall>x \<in> set (chatSessions s). session_id x \<noteq> sid \<Longrightarrow>
     selectChatSession s sid = [SetCurrentSessionId sid]
     \<and> currentSessionId (run (selectChatSession s sid) s) = Some sid
     \<and> messages (run (selectChatSession s sid) s) = messages s
     \<and> messagesEffect (run (selectChatSession s sid) s) = []"
proof -
  assume d: "isDemoMode s" and u: "\<forall>x \<in> set (chatSessions s). session_id x \<noteq> sid"
  from u have n: "find (\<lambda>x. session_id x = sid) (chatSessions s) = None"
    by (simp add: find_None_iff)
  with d have 1: "selectChatSession s sid = [SetCurrentSessionId sid]"
    by (simp add: selectChatSession_def)
  from d show ?thesis
    by (simp add: 1 run_simps messagesEffect_def)
qed

theorem C10_witness:
  "isDemoMode (demo_state\<lparr>messages := earlier\<rparr>)
   \<and> map session_id (chatSessions (demo_state\<lparr>messages := earlier\<rparr>)) = [''s1'']
   \<and> currentSessionId (run (selectChatSession (demo_state\<lparr>messages := earlier\<rparr>) ''unknown'')
                            (demo_state\<lparr>messages := earlier\<rparr>)) = Some ''unknown''
   \<and> messages (run (selectChatSession (demo_state\<lparr>messages := earlier\<rparr>) ''unknown'')
                    (demo_state\<lparr>messages := earlier\<rparr>)) = earlier"
proof -
  have a: "isDemoMode (demo_state\<lparr>messages := earlier\<rparr>)"
    by (simp add: demo_state_def initial_state_def)
  have b: "\<forall>x \<in> set (chatSessions (demo_state\<lparr>messages := earlier\<rparr>)). session_id x \<noteq> ''unknown''"
    by (simp add: demo_state_def initial_state_def session1_def)
  have c: "map session_id (chatSessions (demo_state\<lparr>messages := earlier\<rparr>)) = [''s1'']"
    by (simp add: demo_state_def initial_state_def session1_def)
  from a c C10_demo_unknown_session [OF a b] show ?thesis by auto
qed

end
